theory Spec2Isabelle
  imports Complex_Main "HOL-Library.Word"
begin

unbundle bit_operations_syntax

section \<open>JavaScript values and strings\<close>

text \<open>
  Request bodies and stored documents hold dynamically typed JSON values. A number is a
  finite double; it is modelled by the real it denotes, so that the comparisons and the
  maximum of doubles are those of the reals. A decimal literal of the program, and a
  decimal of a JSON body, denotes the double nearest to it, which is the decimal itself
  only when that is a dyadic rational: \<open>0.25\<close> is exact, while \<open>0.65\<close>, \<open>0.7\<close>,
  \<open>0.85\<close> and \<open>0.9\<close> denote the doubles below. Strings are byte strings (the UTF-8
  encoding).
\<close>

definition double_0_65 :: real where
  "double_0_65 = 5854679515581645 / 9007199254740992"

definition double_0_7 :: real where
  "double_0_7 = 3152519739159347 / 4503599627370496"

definition double_0_85 :: real where
  "double_0_85 = 7656119366529843 / 9007199254740992"

definition double_0_9 :: real where
  "double_0_9 = 8106479329266893 / 9007199254740992"

text \<open>The double just below \<open>0.7\<close>, which prints as \<open>0.6999999999999998\<close>.\<close>

definition double_below_0_7 :: real where
  "double_below_0_7 = 6305039478318693 / 9007199254740992"

datatype jsval =
    JUndefined
  | JNull
  | JBool bool
  | JNum real
  | JStr string
  | JObj "(string \<times> jsval) list"
  | JArr "jsval list"

text \<open>Truthiness, as \<open>!v\<close> and \<open>v || d\<close> and \<open>v ? a : b\<close> test it.\<close>

fun truthy :: "jsval \<Rightarrow> bool" where
  "truthy JUndefined = False"
| "truthy JNull = False"
| "truthy (JBool b) = b"
| "truthy (JNum x) = (x \<noteq> 0)"
| "truthy (JStr s) = (s \<noteq> [])"
| "truthy (JObj kvs) = True"
| "truthy (JArr vs) = True"

type_synonym doc = "(string \<times> jsval) list"

text \<open>Property access \<open>d.k\<close> on an object: \<open>undefined\<close> when the property is absent.\<close>

definition field :: "doc \<Rightarrow> string \<Rightarrow> jsval" where
  "field d k = (case map_of d k of Some v \<Rightarrow> v | None \<Rightarrow> JUndefined)"

text \<open>\<open>String.prototype.trim\<close> on the ASCII white space and line terminators.\<close>

definition is_space :: "char \<Rightarrow> bool" where
  "is_space c = (c \<in> set [CHR 0x09, CHR 0x0A, CHR 0x0B, CHR 0x0C, CHR 0x0D, CHR 0x20])"

definition trim :: "string \<Rightarrow> string" where
  "trim s = rev (dropWhile is_space (rev (dropWhile is_space s)))"

text \<open>\<open>String.prototype.includes\<close>.\<close>

fun str_includes :: "string \<Rightarrow> string \<Rightarrow> bool" where
  "str_includes [] sub = (sub = [])"
| "str_includes (c # cs) sub = (take (length sub) (c # cs) = sub \<or> str_includes cs sub)"

text \<open>Decimal rendering of a status code inside a template literal.\<close>

fun show_nat :: "nat \<Rightarrow> string" where
  "show_nat n =
     (if n < 10 then [''0123456789'' ! n]
      else show_nat (n div 10) @ [''0123456789'' ! (n mod 10)])"

text \<open>
  The regular expression \<open>/^data:image\/\w+;base64,/\<close>. \<open>\w+\<close> is a maximal run of
  word characters, because the next character must be \<open>;\<close>, which is not one.
  \<open>data_url_rest s\<close> is what follows the match, when there is one.
\<close>

definition is_word_char :: "char \<Rightarrow> bool" where
  "is_word_char c =
     (c \<in> set ''abcdefghijklmnopqrstuvwxyzABCDEFGHIJKLMNOPQRSTUVWXYZ0123456789_'')"

definition data_url_rest :: "string \<Rightarrow> string option" where
  "data_url_rest s =
     (if take 11 s = ''data:image/'' then
        (let r = drop 11 s;
             w = takeWhile is_word_char r;
             r' = dropWhile is_word_char r
         in if w \<noteq> [] \<and> take 8 r' = '';base64,'' then Some (drop 8 r') else None)
      else None)"

text \<open>\<open>image.replace(/^data:image\/\w+;base64,/, '')\<close>.\<close>

definition strip_data_url :: "string \<Rightarrow> string" where
  "strip_data_url s = (case data_url_rest s of Some r \<Rightarrow> r | None \<Rightarrow> s)"

text \<open>\<open>/^(data:image\/\w+;base64,)?[A-Za-z0-9+/=]+$/.test(image)\<close>.\<close>

definition is_base64_char :: "char \<Rightarrow> bool" where
  "is_base64_char c =
     (c \<in> set ''abcdefghijklmnopqrstuvwxyzABCDEFGHIJKLMNOPQRSTUVWXYZ0123456789+/='')"

definition image_format_ok :: "string \<Rightarrow> bool" where
  "image_format_ok s =
     ((case data_url_rest s of
         Some r \<Rightarrow> r \<noteq> [] \<and> list_all is_base64_char r
       | None \<Rightarrow> False)
      \<or> (s \<noteq> [] \<and> list_all is_base64_char s))"

section \<open>The MD5 digest\<close>

text \<open>
  \<open>createHash('md5').update(s).digest('hex')\<close> of the crypto library: the MD5 algorithm
  of RFC 1321 over the bytes of the string, printed as 32 lower-case hexadecimal digits.
\<close>

type_synonym w32 = "32 word"

definition md5_s :: "nat list" where
  "md5_s = [7, 12, 17, 22, 7, 12, 17, 22, 7, 12, 17, 22, 7, 12, 17, 22,
            5, 9, 14, 20, 5, 9, 14, 20, 5, 9, 14, 20, 5, 9, 14, 20,
            4, 11, 16, 23, 4, 11, 16, 23, 4, 11, 16, 23, 4, 11, 16, 23,
            6, 10, 15, 21, 6, 10, 15, 21, 6, 10, 15, 21, 6, 10, 15, 21]"

definition md5_K :: "w32 list" where
  "md5_K =
     [0xd76aa478, 0xe8c7b756, 0x242070db, 0xc1bdceee, 0xf57c0faf, 0x4787c62a, 0xa8304613, 0xfd469501,
      0x698098d8, 0x8b44f7af, 0xffff5bb1, 0x895cd7be, 0x6b901122, 0xfd987193, 0xa679438e, 0x49b40821,
      0xf61e2562, 0xc040b340, 0x265e5a51, 0xe9b6c7aa, 0xd62f105d, 0x02441453, 0xd8a1e681, 0xe7d3fbc8,
      0x21e1cde6, 0xc33707d6, 0xf4d50d87, 0x455a14ed, 0xa9e3e905, 0xfcefa3f8, 0x676f02d9, 0x8d2a4c8a,
      0xfffa3942, 0x8771f681, 0x6d9d6122, 0xfde5380c, 0xa4beea44, 0x4bdecfa9, 0xf6bb4b60, 0xbebfbc70,
      0x289b7ec6, 0xeaa127fa, 0xd4ef3085, 0x04881d05, 0xd9d4d039, 0xe6db99e5, 0x1fa27cf8, 0xc4ac5665,
      0xf4292244, 0x432aff97, 0xab9423a7, 0xfc93a039, 0x655b59c3, 0x8f0ccc92, 0xffeff47d, 0x85845dd1,
      0x6fa87e4f, 0xfe2ce6e0, 0xa3014314, 0x4e0811a1, 0xf7537e82, 0xbd3af235, 0x2ad7d2bb, 0xeb86d391]"

definition rotl32 :: "nat \<Rightarrow> w32 \<Rightarrow> w32" where
  "rotl32 n w = push_bit n w OR drop_bit (32 - n) w"

fun le_bytes :: "nat \<Rightarrow> nat \<Rightarrow> nat list" where
  "le_bytes 0 n = []"
| "le_bytes (Suc k) n = n mod 256 # le_bytes k (n div 256)"

definition md5_pad :: "string \<Rightarrow> nat list" where
  "md5_pad msg =
     (let bytes = map of_char msg;
          n = length bytes;
          zeros = (119 - n mod 64) mod 64
      in bytes @ [128] @ replicate zeros 0 @ le_bytes 8 (8 * n))"

fun md5_words :: "nat list \<Rightarrow> w32 list" where
  "md5_words (b0 # b1 # b2 # b3 # bs) =
     (of_nat b0 OR push_bit 8 (of_nat b1) OR push_bit 16 (of_nat b2) OR push_bit 24 (of_nat b3))
       # md5_words bs"
| "md5_words _ = []"

fun md5_blocks :: "w32 list \<Rightarrow> w32 list list" where
  "md5_blocks [] = []"
| "md5_blocks ws = take 16 ws # md5_blocks (drop 16 ws)"

definition md5_step ::
  "w32 list \<Rightarrow> nat \<Rightarrow> w32 \<times> w32 \<times> w32 \<times> w32 \<Rightarrow> w32 \<times> w32 \<times> w32 \<times> w32" where
  "md5_step M i st =
     (case st of (A, B, C, D) \<Rightarrow>
        let (F, g) =
              (if i < 16 then ((B AND C) OR (NOT B AND D), i)
               else if i < 32 then ((D AND B) OR (NOT D AND C), (5 * i + 1) mod 16)
               else if i < 48 then (B XOR C XOR D, (3 * i + 5) mod 16)
               else (C XOR (B OR NOT D), (7 * i) mod 16));
            F' = F + A + md5_K ! i + M ! g
        in (D, B + rotl32 (md5_s ! i) F', B, C))"

definition md5_block ::
  "w32 \<times> w32 \<times> w32 \<times> w32 \<Rightarrow> w32 list \<Rightarrow> w32 \<times> w32 \<times> w32 \<times> w32" where
  "md5_block st M =
     (case st of (a0, b0, c0, d0) \<Rightarrow>
        case fold (md5_step M) [0..<64] st of (A, B, C, D) \<Rightarrow>
          (a0 + A, b0 + B, c0 + C, d0 + D))"

definition hex_digit :: "nat \<Rightarrow> char" where
  "hex_digit n = ''0123456789abcdef'' ! n"

definition hex_byte :: "nat \<Rightarrow> string" where
  "hex_byte b = [hex_digit (b div 16), hex_digit (b mod 16)]"

definition hex_le32 :: "w32 \<Rightarrow> string" where
  "hex_le32 w =
     concat (map (\<lambda>i. hex_byte (unat (take_bit 8 (drop_bit (8 * i) w)))) [0, 1, 2, 3])"

definition md5 :: "string \<Rightarrow> string" where
  "md5 msg =
     (case fold (\<lambda>M st. md5_block st M) (md5_blocks (md5_words (md5_pad msg)))
             (0x67452301, 0xefcdab89, 0x98badcfe, 0x10325476) of
        (a, b, c, d) \<Rightarrow> hex_le32 a @ hex_le32 b @ hex_le32 c @ hex_le32 d)"

section \<open>The classification service\<close>

text \<open>
  The JSON body of a successful response, in the two shapes the service reads:
  \<open>data.images[0].results\<close> and \<open>data.predictions[0].detections\<close>. \<open>None\<close> stands for an
  absent (or null) property. A detection carries its \<open>class\<close> and its \<open>confidence\<close>
  (\<open>det_class\<close> and \<open>det_confidence\<close> here).
\<close>

record detection =
  det_class :: int
  det_confidence :: real

record image_entry =
  results :: "detection list option"

record prediction_entry =
  detections :: "detection list option"

record response_data =
  images :: "image_entry list option"
  predictions :: "prediction_entry list option"

record verdict =
  isWaste :: bool
  label :: string
  confidence :: real
  verification :: string
  isHighConfidence :: bool
  isVerifiedWaste :: bool
  modelVersion :: string

definition MIN_CONFIDENCE :: real where
  "MIN_CONFIDENCE = double_0_65"

definition HIGH_CONFIDENCE_THRESHOLD :: real where
  "HIGH_CONFIDENCE_THRESHOLD = double_0_85"

text \<open>
  The first shape wins when \<open>images[0].results\<close> is there, even when it is an empty array
  (an array is truthy); otherwise the second shape; otherwise no detections.
\<close>

definition extract_detections :: "response_data \<Rightarrow> detection list" where
  "extract_detections data =
     (case (case images data of Some (im # _) \<Rightarrow> results im | _ \<Rightarrow> None) of
        Some ds \<Rightarrow> ds
      | None \<Rightarrow>
          (case (case predictions data of Some (p # _) \<Rightarrow> detections p | _ \<Rightarrow> None) of
             Some ds \<Rightarrow> ds
           | None \<Rightarrow> []))"

text \<open>
  \<open>wasteDetections.length > 0 ? Math.max(...wasteDetections.map(det => det.confidence)) : 0\<close>
\<close>

definition maxConfidence_of :: "detection list \<Rightarrow> real" where
  "maxConfidence_of wasteDetections =
     (case map det_confidence wasteDetections of
        [] \<Rightarrow> 0
      | c # cs \<Rightarrow> fold max cs c)"

definition classify_detections :: "detection list \<Rightarrow> verdict" where
  "classify_detections dets =
     (let wasteDetections = filter (\<lambda>det. det_class det = 1) dets;
          maxConfidence = maxConfidence_of wasteDetections;
          isWaste' = (maxConfidence \<ge> 0.25);
          verification' =
            (if isWaste' then
               (if maxConfidence \<ge> HIGH_CONFIDENCE_THRESHOLD then ''high_confidence''
                else if maxConfidence \<ge> MIN_CONFIDENCE then ''medium_confidence''
                else ''unverified'')
             else ''unverified'')
      in \<lparr> isWaste = isWaste',
           label = (if isWaste' then ''waste'' else ''non-waste''),
           confidence = maxConfidence,
           verification = verification',
           isHighConfidence = (maxConfidence \<ge> HIGH_CONFIDENCE_THRESHOLD),
           isVerifiedWaste = (isWaste' \<and> maxConfidence \<ge> HIGH_CONFIDENCE_THRESHOLD),
           modelVersion = ''YOLOv8'' \<rparr>)"

text \<open>
  What the upstream request does is the environment's choice: something inside the
  \<open>try\<close> block throws (the abort of the 30 second timer raises an error named
  \<open>AbortError\<close>; a network failure raises one whose message names the cause; a body that is
  not JSON raises a parse error), or the service answers with a status that is not ok, or
  it answers with a JSON body. The first component of \<open>upstream\<close> is the time in
  milliseconds that the request takes.
\<close>

record js_error =
  err_name :: string
  err_message :: string

datatype fetch_outcome =
    Threw js_error
  | NotOk nat string
  | Json response_data

text \<open>The \<open>catch\<close> block: the message of the error that \<open>classifyImage\<close> throws.\<close>

definition service_error :: "js_error \<Rightarrow> string" where
  "service_error e =
     (if err_name e = ''AbortError'' then ''SERVICE_TIMEOUT''
      else if str_includes (err_message e) ''ECONNREFUSED'' \<or> str_includes (err_message e) ''ENOTFOUND''
        then ''SERVICE_DOWN''
      else ''SERVICE_ERROR: '' @ err_message e)"

text \<open>Modelled from the spec: the User entity (its model file is not part of the
  sources) holds \<open>reportCount\<close> and \<open>points\<close>, both numbers.\<close>

record user =
  reportCount :: real
  points :: real

text \<open>
  The state of the process and of its collaborators: the module-level \<open>imageCache\<close>, the
  pending \<open>setTimeout\<close> callbacks that delete a cache entry (due time, key), the clock in
  milliseconds, the number of requests sent upstream so far, and the two collections of
  the document store.
\<close>

record world =
  imageCache :: "string \<rightharpoonup> verdict"
  timers :: "(nat \<times> string) list"
  now :: nat
  upstream_calls :: nat
  reports :: "string \<rightharpoonup> doc"
  users :: "string \<rightharpoonup> user"

definition initial_world :: world where
  "initial_world =
     \<lparr> imageCache = Map.empty, timers = [], now = 0, upstream_calls = 0,
       reports = Map.empty, users = Map.empty \<rparr>"

text \<open>
  Every timer that is due runs its callback \<open>imageCache.delete(hash)\<close>; a timer is
  taken to run at the time it is due, before anything else that happens at that time.
\<close>

definition run_timers :: "world \<Rightarrow> world" where
  "run_timers s =
     s\<lparr> imageCache :=
          fold (\<lambda>(due, hash) m. m(hash := None))
            (filter (\<lambda>(due, hash). due \<le> now s) (timers s)) (imageCache s),
        timers := filter (\<lambda>(due, hash). now s < due) (timers s) \<rparr>"

definition tick :: "nat \<Rightarrow> world \<Rightarrow> world" where
  "tick d s = run_timers (s\<lparr> now := now s + d \<rparr>)"

text \<open>
  A call of \<open>classifyImage\<close> runs in two parts, because it waits for the upstream service
  between its lookup in the cache (line 13) and its store (line 95); whatever else the
  process does in the meantime, other calls included, happens between the two parts. The
  first part (lines 11 to 42) computes the digest and looks it up: on a hit the call
  returns the entry, on a miss it sends the request upstream and waits.
\<close>

definition classifyImage_lookup :: "string \<Rightarrow> world \<Rightarrow> verdict option \<times> world" where
  "classifyImage_lookup imageBase64 s =
     (let hash = md5 imageBase64 in
      case imageCache s hash of
        Some cached \<Rightarrow> (Some cached, s)
      | None \<Rightarrow> (None, s\<lparr> upstream_calls := upstream_calls s + 1 \<rparr>))"

text \<open>
  The second part (lines 51 to 108) runs when the request has settled: it throws, or it
  builds the verdict, stores it under the digest computed by the first part, starts the
  timer that deletes the key 300000 ms later, and returns the verdict. The waits for the
  body of the response (lines 54 and 58) touch no state and are part of the outcome.
\<close>

definition classifyImage_settle ::
  "string \<Rightarrow> fetch_outcome \<Rightarrow> world \<Rightarrow> (string + verdict) \<times> world" where
  "classifyImage_settle imageBase64 outcome s =
     (let hash = md5 imageBase64 in
      case outcome of
        Threw e \<Rightarrow> (Inl (service_error e), s)
      | NotOk status errorText \<Rightarrow>
          (Inl (service_error
                  \<lparr> err_name = ''Error'',
                    err_message = ''API_ERROR: '' @ show_nat status @ '' - '' @ errorText \<rparr>),
           s)
      | Json data \<Rightarrow>
          (let result = classify_detections (extract_detections data) in
           (Inr result,
            s\<lparr> imageCache := (imageCache s)(hash \<mapsto> result),
                timers := timers s @ [(now s + 300000, hash)] \<rparr>)))"

text \<open>
  A call during whose wait nothing runs but the timers that fall due: the two parts, with
  the time \<open>fst upstream\<close> that the request takes between them. This is the call as one
  request of the routes sees it.
\<close>

definition classifyImage ::
  "string \<Rightarrow> nat \<times> fetch_outcome \<Rightarrow> world \<Rightarrow> (string + verdict) \<times> world" where
  "classifyImage imageBase64 upstream s =
     (case classifyImage_lookup imageBase64 s of
        (Some cached, s0) \<Rightarrow> (Inr cached, s0)
      | (None, s0) \<Rightarrow>
          classifyImage_settle imageBase64 (snd upstream) (tick (fst upstream) s0))"





section \<open>The Report model\<close>

text \<open>
  The paths that \<open>reportSchema\<close> declares. The schema sets no \<open>strict\<close> option, so the
  document constructor runs in the store's default strict mode: a property of the
  constructor's argument that is not a declared path is not part of the document.
\<close>

definition reportSchema_paths :: "string list" where
  "reportSchema_paths =
     [''title'', ''image'', ''publicId'', ''details'', ''location'', ''address'', ''createdTime'',
      ''user'', ''photoTimestamp'', ''reportType'', ''status'', ''outOfScopeReason'',
      ''outOfScopeBy'', ''outOfScopeAt'', ''resolvedImage'', ''resolvedPublicId'',
      ''resolvedLocation'', ''resolvedAddress'', ''resolvedBy'', ''assignedTo'', ''assignedAt'',
      ''assignedMsg'', ''distanceToReported'', ''permanentlyResolvedAt'',
      ''permanentlyResolvedBy'', ''resolvedAt'', ''rejectionReason'', ''rejectedBy'',
      ''rejectedAt'']"

definition reportType_enum :: "string list" where
  "reportType_enum = [''standard'', ''hazardous'', ''large'']"

definition status_enum :: "string list" where
  "status_enum =
     [''pending'', ''in-progress'', ''resolved'', ''rejected'', ''permanent-resolved'',
      ''out-of-scope'']"

text \<open>
  \<open>new Report(obj)\<close>: the declared paths of \<open>obj\<close> that are set, then the schema's
  defaults (\<open>createdTime\<close>, \<open>reportType\<close>, \<open>status\<close>) for the paths that are not.
\<close>

definition new_Report :: "string \<Rightarrow> nat \<Rightarrow> doc \<Rightarrow> doc" where
  "new_Report oid t obj =
     (let given = filter (\<lambda>(k, v). k \<in> set reportSchema_paths \<and> v \<noteq> JUndefined) obj;
          defaults =
            filter (\<lambda>(k, v). map_of given k = None)
              [(''createdTime'', JNum (real t)), (''reportType'', JStr ''standard''),
               (''status'', JStr ''pending'')]
      in (''_id'', JStr oid) # given @ defaults)"

text \<open>
  The validation that \<open>save\<close> runs: the paths that fail. A required String path needs a
  non-empty string, the required Date path a valid date (a number here), an enum path one
  of its values.
\<close>

definition nonempty_string :: "jsval \<Rightarrow> bool" where
  "nonempty_string v = (case v of JStr s \<Rightarrow> s \<noteq> [] | _ \<Rightarrow> False)"

definition string_in :: "string list \<Rightarrow> jsval \<Rightarrow> bool" where
  "string_in allowed v = (case v of JStr s \<Rightarrow> s \<in> set allowed | _ \<Rightarrow> False)"

definition is_number :: "jsval \<Rightarrow> bool" where
  "is_number v = (case v of JNum x \<Rightarrow> True | _ \<Rightarrow> False)"

definition validate_Report :: "doc \<Rightarrow> string list" where
  "validate_Report d =
     filter (\<lambda>k. \<not> nonempty_string (field d k))
       [''title'', ''image'', ''publicId'', ''details'', ''address'', ''user'']
     @ (if is_number (field d ''photoTimestamp'') then [] else [''photoTimestamp''])
     @ (if string_in reportType_enum (field d ''reportType'') then [] else [''reportType''])
     @ (if string_in status_enum (field d ''status'') then [] else [''status''])"

section \<open>The routes of the reports\<close>

text \<open>
  The functions of the platform that the routes call on their input:
  \<open>Buffer.from(s, 'base64').length\<close>, \<open>parseFloat\<close> (\<open>None\<close> is NaN) and the time value of
  \<open>new Date(v)\<close> (\<open>None\<close> is an invalid date).
\<close>

record runtime =
  decoded_length :: "string \<Rightarrow> nat"
  parseFloat :: "jsval \<Rightarrow> real option"
  parse_date :: "jsval \<Rightarrow> real option"

text \<open>The destructured \<open>req.body\<close> (fields \<open>body_title\<close>, ...) and \<open>req.user._id\<close>.\<close>

record request =
  body_title :: jsval
  body_image :: jsval
  body_details :: jsval
  body_address :: jsval
  body_latitude :: jsval
  body_longitude :: jsval
  body_photoTimestamp :: jsval
  body_reportType :: jsval
  body_forceSubmit :: jsval
  req_user :: string

record upload_response =
  secure_url :: string
  public_id :: string

text \<open>\<open>Promise.race([cloudinaryPromise, uploadTimeout])\<close>: which promise settles first.\<close>

datatype race_outcome =
    UploadResolved upload_response
  | UploadRejected js_error
  | DeadlineFirst

text \<open>
  What the collaborators do during one submission: the upstream classification request,
  the race of the upload, the identifier the store gives the new document, and whether
  the store fails on \<open>save\<close> or on the update of the user.
\<close>

record outcomes =
  upstream :: "nat \<times> fetch_outcome"
  upload_race :: race_outcome
  fresh_id :: string
  save_error :: "string option"
  user_update_error :: "string option"

text \<open>What the store does during one deletion.\<close>

record deletion_outcomes =
  find_error :: "string option"
  deduct_error :: "string option"
  deleteOne_error :: "string option"

datatype reply =
    ImageTooLarge
  | MissingFields "string list"
  | InvalidCoordinates
  | InvalidCoordinatesRange real real
  | InvalidImageFormat
  | NotWaste verdict
  | LowConfidence verdict
  | ServiceUnavailable string
  | CloudinaryTimeout
  | CloudinaryError string
  | ValidationError "string list"
  | InternalServerError string
  | Created doc jsval "verdict option"
  | NotFound
  | Unauthorized
  | Deleted
  | DeleteFailed

fun http_status :: "reply \<Rightarrow> nat" where
  "http_status ImageTooLarge = 413"
| "http_status (MissingFields fs) = 400"
| "http_status InvalidCoordinates = 400"
| "http_status (InvalidCoordinatesRange lat lon) = 400"
| "http_status InvalidImageFormat = 400"
| "http_status (NotWaste c) = 400"
| "http_status (LowConfidence c) = 400"
| "http_status (ServiceUnavailable e) = 503"
| "http_status CloudinaryTimeout = 504"
| "http_status (CloudinaryError e) = 500"
| "http_status (ValidationError ps) = 400"
| "http_status (InternalServerError e) = 500"
| "http_status (Created r p c) = 201"
| "http_status NotFound = 404"
| "http_status Unauthorized = 401"
| "http_status Deleted = 200"
| "http_status DeleteFailed = 500"

text \<open>The \<open>code\<close> property of the reply; the replies of the delete route have none.\<close>

fun reply_code :: "reply \<Rightarrow> string option" where
  "reply_code ImageTooLarge = Some ''IMAGE_TOO_LARGE''"
| "reply_code (MissingFields fs) = Some ''MISSING_FIELDS''"
| "reply_code InvalidCoordinates = Some ''INVALID_COORDINATES''"
| "reply_code (InvalidCoordinatesRange lat lon) = Some ''INVALID_COORDINATES_RANGE''"
| "reply_code InvalidImageFormat = Some ''INVALID_IMAGE_FORMAT''"
| "reply_code (NotWaste c) = Some ''NOT_WASTE''"
| "reply_code (LowConfidence c) = Some ''LOW_CONFIDENCE''"
| "reply_code (ServiceUnavailable e) = Some ''SERVICE_UNAVAILABLE''"
| "reply_code CloudinaryTimeout = Some ''CLOUDINARY_TIMEOUT''"
| "reply_code (CloudinaryError e) = Some ''CLOUDINARY_ERROR''"
| "reply_code (ValidationError ps) = Some ''VALIDATION_ERROR''"
| "reply_code (InternalServerError e) = Some ''INTERNAL_SERVER_ERROR''"
| "reply_code (Created r p c) = None"
| "reply_code NotFound = None"
| "reply_code Unauthorized = None"
| "reply_code Deleted = None"
| "reply_code DeleteFailed = None"

subsection \<open>Submission\<close>

text \<open>
  Lines 24 to 81 of the route. \<open>image.replace\<close> is called first, before any field is
  checked: for an \<open>image\<close> (\<open>img\<close> here) that is not a string it throws a
  TypeError, which the outer \<open>catch\<close> turns into the reply of an internal error. The
  size of the decoded image is checked next, then the required fields, the coordinates and
  the format of the image.
\<close>

definition missing_fields :: "request \<Rightarrow> string list" where
  "missing_fields req =
     (if \<not> truthy (body_title req) then [''title''] else [])
     @ (if \<not> truthy (body_image req) then [''image''] else [])
     @ (if \<not> truthy (body_details req) then [''details''] else [])
     @ (if \<not> truthy (body_address req) then [''address''] else [])
     @ (if body_latitude req = JUndefined \<or> body_longitude req = JUndefined
        then [''location''] else [])"

definition validate_request :: "runtime \<Rightarrow> request \<Rightarrow> reply + string \<times> real \<times> real" where
  "validate_request rt req =
     (case body_image req of
        JStr img \<Rightarrow>
          (let base64Data = strip_data_url img in
           if decoded_length rt base64Data > 5 * 1024 * 1024 then Inl ImageTooLarge
           else if missing_fields req \<noteq> [] then Inl (MissingFields (missing_fields req))
           else
             (case (parseFloat rt (body_latitude req), parseFloat rt (body_longitude req)) of
                (Some lat, Some lon) \<Rightarrow>
                  if lat < - 90 \<or> lat > 90 \<or> lon < - 180 \<or> lon > 180
                  then Inl (InvalidCoordinatesRange lat lon)
                  else if \<not> image_format_ok img then Inl InvalidImageFormat
                  else Inr (img, lat, lon)
              | _ \<Rightarrow> Inl InvalidCoordinates))
      | JUndefined \<Rightarrow>
          Inl (InternalServerError ''Cannot read properties of undefined (reading 'replace')'')
      | JNull \<Rightarrow>
          Inl (InternalServerError ''Cannot read properties of null (reading 'replace')'')
      | _ \<Rightarrow> Inl (InternalServerError ''image.replace is not a function''))"

text \<open>Lines 88 to 102: the two checks on a verdict.\<close>

definition admission_gate :: "verdict \<Rightarrow> reply option" where
  "admission_gate classification =
     (if \<not> isWaste classification then Some (NotWaste classification)
      else if confidence classification < double_0_7 then Some (LowConfidence classification)
      else None)"

text \<open>Lines 83 to 110: the verdict that the submission carries on, none when bypassed.\<close>

definition verify_image ::
  "jsval \<Rightarrow> string \<Rightarrow> nat \<times> fetch_outcome \<Rightarrow> world \<Rightarrow> (reply + verdict option) \<times> world" where
  "verify_image forceSubmit img up s =
     (if truthy forceSubmit then (Inr None, s)
      else
        (case classifyImage img up s of
           (Inl msg, s1) \<Rightarrow> (Inl (ServiceUnavailable msg), s1)
         | (Inr classification, s1) \<Rightarrow>
             (case admission_gate classification of
                Some r \<Rightarrow> (Inl r, s1)
              | None \<Rightarrow> (Inr (Some classification), s1))))"

text \<open>
  Lines 112 to 140. The deadline rejects with an error whose message is
  \<open>CLOUDINARY_TIMEOUT\<close>; the \<open>catch\<close> block tells the two failures apart by that message.
\<close>

definition upload_image :: "race_outcome \<Rightarrow> reply + upload_response" where
  "upload_image race =
     (case race of
        UploadResolved uploadResponse \<Rightarrow> Inr uploadResponse
      | _ \<Rightarrow>
          (let uploadError =
                 (case race of
                    UploadRejected e \<Rightarrow> e
                  | _ \<Rightarrow> \<lparr> err_name = ''Error'', err_message = ''CLOUDINARY_TIMEOUT'' \<rparr>)
           in if err_message uploadError = ''CLOUDINARY_TIMEOUT'' then Inl CloudinaryTimeout
              else Inl (CloudinaryError (err_message uploadError))))"

text \<open>
  \<open>v.trim()\<close> on a body field: a TypeError when the field is not a string (the field is
  truthy where the route calls it).
\<close>

definition trim_field :: "string \<Rightarrow> jsval \<Rightarrow> string + jsval" where
  "trim_field name v =
     (case v of
        JStr str \<Rightarrow> Inr (JStr (trim str))
      | _ \<Rightarrow> Inl (name @ ''.trim is not a function''))"

definition finalReportType :: "request \<Rightarrow> jsval" where
  "finalReportType req =
     (if truthy (body_reportType req) then body_reportType req else JStr ''standard'')"

definition aiVerification_of :: "verdict option \<Rightarrow> jsval" where
  "aiVerification_of classification =
     (case classification of
        Some c \<Rightarrow>
          JObj [(''isWaste'', JBool (isWaste c)), (''confidence'', JNum (confidence c)),
                (''verification'', JStr (verification c))]
      | None \<Rightarrow> JNull)"

text \<open>
  Lines 143 to 161: the argument of \<open>new Report\<close>, or the message of the TypeError that
  building it throws. A valid date is the number of its time value; an invalid date, which
  fails the cast of the Date path, is an unset path.
\<close>

definition report_object ::
  "runtime \<Rightarrow> request \<Rightarrow> nat \<Rightarrow> real \<Rightarrow> real \<Rightarrow> upload_response \<Rightarrow> verdict option
     \<Rightarrow> string + doc" where
  "report_object rt req t lat lon uploadResponse classification =
     (case trim_field ''title'' (body_title req) of
        Inl e \<Rightarrow> Inl e
      | Inr title' \<Rightarrow>
     (case trim_field ''details'' (body_details req) of
        Inl e \<Rightarrow> Inl e
      | Inr details' \<Rightarrow>
     (case trim_field ''address'' (body_address req) of
        Inl e \<Rightarrow> Inl e
      | Inr address' \<Rightarrow>
          Inr [(''title'', title'),
               (''image'', JStr (secure_url uploadResponse)),
               (''publicId'', JStr (public_id uploadResponse)),
               (''details'', details'),
               (''address'', address'),
               (''reportType'', finalReportType req),
               (''location'',
                  JObj [(''type'', JStr ''Point''), (''coordinates'', JArr [JNum lon, JNum lat])]),
               (''photoTimestamp'',
                  (if truthy (body_photoTimestamp req)
                   then (case parse_date rt (body_photoTimestamp req) of
                           Some ms \<Rightarrow> JNum ms
                         | None \<Rightarrow> JUndefined)
                   else JNum (real t))),
               (''user'', JStr (req_user req)),
               (''aiVerification'', aiVerification_of classification)])))"

text \<open>
  \<open>newReport.save()\<close>: a ValidationError when a path fails; an error of the store
  otherwise makes the outer \<open>catch\<close> reply with an internal error; else the document is
  stored under its identifier with its two time stamps.
\<close>

definition save_Report :: "doc \<Rightarrow> string option \<Rightarrow> world \<Rightarrow> reply + doc \<times> world" where
  "save_Report d err s =
     (if validate_Report d \<noteq> [] then Inl (ValidationError (validate_Report d))
      else
        (case err of
           Some e \<Rightarrow> Inl (InternalServerError e)
         | None \<Rightarrow>
             (case field d ''_id'' of
                JStr oid \<Rightarrow>
                  if reports s oid \<noteq> None then Inl (InternalServerError ''E11000 duplicate key'')
                  else
                    (let saved =
                           d @ [(''createdAt'', JNum (real (now s))),
                                (''updatedAt'', JNum (real (now s)))]
                     in Inr (saved, s\<lparr> reports := (reports s)(oid \<mapsto> saved) \<rparr>))
              | _ \<Rightarrow> Inl (InternalServerError ''document must have an _id before saving''))))"

text \<open>
  The object literal \<open>pointsMap\<close> of both routes. A property read on it also finds what
  an object inherits, whose value is not a number; any other key gives \<open>undefined\<close>. The
  key is a string in both routes: the report type passed the validation of \<open>save\<close>, which
  is modelled as refusing every value that is not a string of the enumeration, or it is
  read from a String path. For a value that is not a string, which does not reach the
  lookup, the model gives \<open>undefined\<close>.
\<close>

definition pointsMap :: "(string \<times> real) list" where
  "pointsMap = [(''standard'', 10), (''hazardous'', 20), (''large'', 15)]"

definition Object_prototype_keys :: "string list" where
  "Object_prototype_keys =
     [''constructor'', ''__proto__'', ''hasOwnProperty'', ''isPrototypeOf'',
      ''propertyIsEnumerable'', ''toLocaleString'', ''toString'', ''valueOf'',
      ''__defineGetter__'', ''__defineSetter__'', ''__lookupGetter__'', ''__lookupSetter__'']"

definition pointsMap_at :: "jsval \<Rightarrow> jsval" where
  "pointsMap_at key =
     (case key of
        JStr k \<Rightarrow>
          (case map_of pointsMap k of
             Some p \<Rightarrow> JNum p
           | None \<Rightarrow> if k \<in> set Object_prototype_keys then JObj [] else JUndefined)
      | _ \<Rightarrow> JUndefined)"

text \<open>\<open>pointsMap[finalReportType] || 10\<close>\<close>

definition pointsToAdd :: "jsval \<Rightarrow> jsval" where
  "pointsToAdd reportType =
     (if truthy (pointsMap_at reportType) then pointsMap_at reportType else JNum 10)"

text \<open>\<open>report.reportType ? pointsMap[report.reportType] || 10 : 10\<close>\<close>

definition pointsToDeduct :: "jsval \<Rightarrow> jsval" where
  "pointsToDeduct reportType =
     (if truthy reportType
      then (if truthy (pointsMap_at reportType) then pointsMap_at reportType else JNum 10)
      else JNum 10)"

text \<open>
  \<open>User.findByIdAndUpdate(id, { $inc: { reportCount: c, points: p } })\<close>: nothing
  changes when there is no such user.
\<close>

definition inc_user :: "string \<Rightarrow> real \<Rightarrow> real \<Rightarrow> world \<Rightarrow> world" where
  "inc_user uid c p s =
     (case users s uid of
        None \<Rightarrow> s
      | Some u \<Rightarrow>
          s\<lparr> users := (users s)(uid \<mapsto>
                u\<lparr> reportCount := reportCount u + c, points := points u + p \<rparr>) \<rparr>)"

text \<open>
  Lines 164 to 172: the update of the user inside its own \<open>try\<close>, whose \<open>catch\<close> is
  empty. The update throws when the store fails, or when the increment is not a number.
\<close>

definition award_points :: "string \<Rightarrow> jsval \<Rightarrow> string option \<Rightarrow> world \<Rightarrow> world" where
  "award_points uid pts err s =
     (case (err, pts) of
        (None, JNum p) \<Rightarrow> inc_user uid 1 p s
      | _ \<Rightarrow> s)"

definition post_report :: "runtime \<Rightarrow> request \<Rightarrow> outcomes \<Rightarrow> world \<Rightarrow> reply \<times> world" where
  "post_report rt req out s =
     (case validate_request rt req of
        Inl r \<Rightarrow> (r, s)
      | Inr (img, lat, lon) \<Rightarrow>
     (case verify_image (body_forceSubmit req) img (upstream out) s of
        (Inl r, s1) \<Rightarrow> (r, s1)
      | (Inr classification, s1) \<Rightarrow>
     (case upload_image (upload_race out) of
        Inl r \<Rightarrow> (r, s1)
      | Inr uploadResponse \<Rightarrow>
     (case report_object rt req (now s1) lat lon uploadResponse classification of
        Inl e \<Rightarrow> (InternalServerError e, s1)
      | Inr obj \<Rightarrow>
     (case save_Report (new_Report (fresh_id out) (now s1) obj) (save_error out) s1 of
        Inl r \<Rightarrow> (r, s1)
      | Inr (savedReport, s2) \<Rightarrow>
          (Created savedReport (pointsToAdd (finalReportType req)) classification,
           award_points (req_user req) (pointsToAdd (finalReportType req))
             (user_update_error out) s2))))))"

subsection \<open>Deletion\<close>

text \<open>
  The delete route. An error of the store (also for an identifier it cannot cast), a
  report without a user, and an increment that is not a number all end in the outer
  \<open>catch\<close>. The best-effort \<open>destroy\<close> of the stored image changes neither the reply nor
  the state modelled here. The points are deducted before the report is deleted.
\<close>

definition delete_report ::
  "string \<Rightarrow> string \<Rightarrow> deletion_outcomes \<Rightarrow> world \<Rightarrow> reply \<times> world" where
  "delete_report rid uid out s =
     (case find_error out of
        Some e \<Rightarrow> (DeleteFailed, s)
      | None \<Rightarrow>
     (case reports s rid of
        None \<Rightarrow> (NotFound, s)
      | Some report \<Rightarrow>
     (case field report ''user'' of
        JStr owner \<Rightarrow>
          if owner \<noteq> uid then (Unauthorized, s)
          else
            (case (deduct_error out, pointsToDeduct (field report ''reportType'')) of
               (None, JNum p) \<Rightarrow>
                 (let s1 = inc_user uid (- 1) (- p) s in
                  case deleteOne_error out of
                    Some e \<Rightarrow> (DeleteFailed, s1)
                  | None \<Rightarrow> (Deleted, s1\<lparr> reports := (reports s1)(rid := None) \<rparr>))
             | _ \<Rightarrow> (DeleteFailed, s))
      | _ \<Rightarrow> (DeleteFailed, s))))"



text \<open>A platform and collaborators for the concrete runs below.\<close>

definition sample_runtime :: runtime where
  "sample_runtime =
     \<lparr> decoded_length = (\<lambda>b. (3 * length b) div 4),
       parseFloat = (\<lambda>v. case v of JNum x \<Rightarrow> Some x | _ \<Rightarrow> None),
       parse_date = (\<lambda>v. case v of JNum x \<Rightarrow> Some x | _ \<Rightarrow> None) \<rparr>"

definition sample_request :: request where
  "sample_request =
     \<lparr> body_title = JStr ''Dump'', body_image = JStr ''AAAA'', body_details = JStr ''Bags'',
       body_address = JStr ''Main St'', body_latitude = JNum 0, body_longitude = JNum 0,
       body_photoTimestamp = JUndefined, body_reportType = JStr ''hazardous'',
       body_forceSubmit = JUndefined, req_user = ''u1'' \<rparr>"

definition waste_response :: "real \<Rightarrow> response_data" where
  "waste_response c =
     \<lparr> images = Some [\<lparr> results = Some [\<lparr> det_class = 1, det_confidence = c \<rparr>] \<rparr>],
       predictions = None \<rparr>"

definition sample_outcomes :: outcomes where
  "sample_outcomes =
     \<lparr> upstream = (100, Json (waste_response double_0_9)),
       upload_race = UploadResolved \<lparr> secure_url = ''https://img/1.jpg'', public_id = ''reports/1'' \<rparr>,
       fresh_id = ''r1'', save_error = None, user_update_error = None \<rparr>"

definition sample_world :: world where
  "sample_world =
     initial_world\<lparr> users := [''u1'' \<mapsto> \<lparr> reportCount = 0, points = 0 \<rparr>] \<rparr>"

definition sample_verdict :: verdict where
  "sample_verdict =
     \<lparr> isWaste = True, label = ''waste'', confidence = double_0_9, verification = ''high_confidence'',
       isHighConfidence = True, isVerifiedWaste = True, modelVersion = ''YOLOv8'' \<rparr>"

text \<open>An image of 6990508 characters, which decodes to 5 MiB and one byte.\<close>

definition oversized_image :: string where
  "oversized_image = replicate 6990508 (CHR ''A'')"

text \<open>A store that holds one report of user \<open>u1\<close>, already resolved.\<close>

definition resolved_report :: doc where
  "resolved_report =
     [(''_id'', JStr ''r1''), (''title'', JStr ''Dump''), (''publicId'', JStr ''reports/1''),
      (''user'', JStr ''u1''), (''reportType'', JStr ''standard''),
      (''status'', JStr ''resolved'')]"

definition resolved_world :: world where
  "resolved_world =
     initial_world\<lparr> reports := [''r1'' \<mapsto> resolved_report],
                    users := [''u1'' \<mapsto> \<lparr> reportCount = 1, points = 10 \<rparr>] \<rparr>"

definition sample_deletion :: deletion_outcomes where
  "sample_deletion = \<lparr> find_error = None, deduct_error = None, deleteOne_error = None \<rparr>"

text \<open>The document that the sample submission stores.\<close>

definition sample_saved :: doc where
  "sample_saved =
     [(''_id'', JStr ''r1''), (''title'', JStr ''Dump''), (''image'', JStr ''https://img/1.jpg''),
      (''publicId'', JStr ''reports/1''), (''details'', JStr ''Bags''),
      (''address'', JStr ''Main St''), (''reportType'', JStr ''hazardous''),
      (''location'', JObj [(''type'', JStr ''Point''), (''coordinates'', JArr [JNum 0, JNum 0])]),
      (''photoTimestamp'', JNum 100), (''user'', JStr ''u1''), (''createdTime'', JNum 100),
      (''status'', JStr ''pending''), (''createdAt'', JNum 100), (''updatedAt'', JNum 100)]"

section \<open>Properties of the classification verdict\<close>

text \<open>
  The doubles of the decimal literals: each is \<open>m / 2^53\<close> for an integer \<open>m\<close> from
  \<open>2^52\<close> up to \<open>2^53\<close>, a significand of 53 bits, and lies less than half a unit in
  the last place, \<open>1 / 2^54\<close>, from its decimal, so that it is the double nearest to it.
\<close>

lemma double_literals:
  "double_0_65 = 5854679515581645 / 2 ^ 53" "\<bar>double_0_65 - 65 / 100\<bar> < 1 / 2 ^ 54"
  "double_0_7 = 6305039478318694 / 2 ^ 53" "\<bar>double_0_7 - 7 / 10\<bar> < 1 / 2 ^ 54"
  "double_0_85 = 7656119366529843 / 2 ^ 53" "\<bar>double_0_85 - 85 / 100\<bar> < 1 / 2 ^ 54"
  "double_0_9 = 8106479329266893 / 2 ^ 53" "\<bar>double_0_9 - 9 / 10\<bar> < 1 / 2 ^ 54"
  "double_below_0_7 = double_0_7 - 1 / 2 ^ 53"
  "(2::real) ^ 52 \<le> 5854679515581645" "(8106479329266893::real) < 2 ^ 53"
  by (simp_all add: double_0_65_def double_0_7_def double_0_85_def double_0_9_def
      double_below_0_7_def)

lemma double_order:
  "0.25 < double_0_65" "0.65 < double_0_65" "double_0_65 < double_below_0_7"
  "double_below_0_7 < double_0_7" "double_0_7 < 0.7" "double_0_7 < double_0_85"
  "double_0_85 < 0.85" "double_0_85 < double_0_9" "0.9 < double_0_9" "double_0_9 < 1"
  by (simp_all add: double_0_65_def double_0_7_def double_0_85_def double_0_9_def
      double_below_0_7_def)

lemma classifyImage_unfold:
  "classifyImage img up s =
     (let hash = md5 img in
      case imageCache s hash of
        Some cached \<Rightarrow> (Inr cached, s)
      | None \<Rightarrow>
          (let s1 = tick (fst up) (s\<lparr> upstream_calls := upstream_calls s + 1 \<rparr>) in
           case snd up of
             Threw e \<Rightarrow> (Inl (service_error e), s1)
           | NotOk status errorText \<Rightarrow>
               (Inl (service_error
                       \<lparr> err_name = ''Error'',
                         err_message = ''API_ERROR: '' @ show_nat status @ '' - '' @ errorText \<rparr>),
                s1)
           | Json data \<Rightarrow>
               (let result = classify_detections (extract_detections data) in
                (Inr result,
                 s1\<lparr> imageCache := (imageCache s1)(hash \<mapsto> result),
                     timers := timers s1 @ [(now s1 + 300000, hash)] \<rparr>))))"
  by (simp add: classifyImage_def classifyImage_lookup_def classifyImage_settle_def Let_def
      split: option.split fetch_outcome.split)

lemma maxConfidence_of_Max:
  "maxConfidence_of ws = (if ws = [] then 0 else Max (set (map det_confidence ws)))"
proof (cases ws)
  case Nil
  then show ?thesis by (simp add: maxConfidence_of_def)
next
  case (Cons a list)
  have "fold max (map det_confidence list) (det_confidence a)
          = Max (set (det_confidence a # map det_confidence list))"
    by (simp only: Max.set_eq_fold)
  with Cons show ?thesis by (simp add: maxConfidence_of_def)
qed

lemma classify_detections_fields:
  "confidence (classify_detections ds) = maxConfidence_of (filter (\<lambda>det. det_class det = 1) ds)"
  "isWaste (classify_detections ds) = (confidence (classify_detections ds) \<ge> 0.25)"
  "label (classify_detections ds) = (if isWaste (classify_detections ds) then ''waste'' else ''non-waste'')"
  "verification (classify_detections ds) =
     (if confidence (classify_detections ds) < double_0_65 then ''unverified''
      else if confidence (classify_detections ds) < double_0_85 then ''medium_confidence''
      else ''high_confidence'')"
  "isHighConfidence (classify_detections ds) = (confidence (classify_detections ds) \<ge> double_0_85)"
  "isVerifiedWaste (classify_detections ds) =
     (isWaste (classify_detections ds) \<and> confidence (classify_detections ds) \<ge> double_0_85)"
  using double_order(1,6,3,4)
  by (auto simp: classify_detections_def Let_def MIN_CONFIDENCE_def HIGH_CONFIDENCE_THRESHOLD_def)

lemma extract_detections_first:
  "extract_detections \<lparr> images = Some (\<lparr> results = Some ds \<rparr> # ims), predictions = ps \<rparr> = ds"
  by (simp add: extract_detections_def)

lemma extract_detections_second:
  "extract_detections
     \<lparr> images = None, predictions = Some (\<lparr> detections = Some ds \<rparr> # ps) \<rparr> = ds"
  "extract_detections
     \<lparr> images = Some [], predictions = Some (\<lparr> detections = Some ds \<rparr> # ps) \<rparr> = ds"
  "extract_detections
     \<lparr> images = Some (\<lparr> results = None \<rparr> # ims),
       predictions = Some (\<lparr> detections = Some ds \<rparr> # ps) \<rparr> = ds"
  by (simp_all add: extract_detections_def)

lemma extract_detections_neither:
  "extract_detections \<lparr> images = None, predictions = None \<rparr> = []"
  "extract_detections \<lparr> images = None, predictions = Some [] \<rparr> = []"
  "extract_detections \<lparr> images = None, predictions = Some (\<lparr> detections = None \<rparr> # ps) \<rparr> = []"
  "extract_detections \<lparr> images = Some [], predictions = None \<rparr> = []"
  "extract_detections \<lparr> images = Some [], predictions = Some [] \<rparr> = []"
  "extract_detections
     \<lparr> images = Some [], predictions = Some (\<lparr> detections = None \<rparr> # ps) \<rparr> = []"
  "extract_detections \<lparr> images = Some (\<lparr> results = None \<rparr> # ims), predictions = None \<rparr> = []"
  "extract_detections \<lparr> images = Some (\<lparr> results = None \<rparr> # ims), predictions = Some [] \<rparr> = []"
  "extract_detections
     \<lparr> images = Some (\<lparr> results = None \<rparr> # ims),
       predictions = Some (\<lparr> detections = None \<rparr> # ps) \<rparr> = []"
  by (simp_all add: extract_detections_def)

lemma classifyImage_miss_Json:
  "fst (classifyImage img (d, Json data) s) =
     Inr (case imageCache s (md5 img) of
            Some cached \<Rightarrow> cached
          | None \<Rightarrow> classify_detections (extract_detections data))"
  by (simp add: classifyImage_unfold Let_def split: option.split)

text \<open>
  Claim C3. The numbers are doubles, and \<open>0.65\<close> and \<open>0.85\<close> are the doubles that
  these literals denote (\<open>double_0_65\<close>, \<open>double_0_85\<close>, the doubles nearest to
  65/100 and 85/100); \<open>0.25\<close> is exact. For every
  list of detections, the confidence of the verdict is the greatest confidence among the
  detections of class 1, and 0 when there are none; \<open>isWaste\<close> holds exactly when that
  confidence is at least 0.25; the tier is \<open>unverified\<close> below 0.65, also when \<open>isWaste\<close>
  holds, \<open>medium_confidence\<close> from 0.65 up to 0.85 and \<open>high_confidence\<close> from 0.85 on;
  \<open>isHighConfidence\<close> holds exactly from 0.85 on and \<open>isVerifiedWaste\<close> exactly when
  moreover \<open>isWaste\<close> holds. On a cache miss, the verdict that \<open>classifyImage\<close> returns
  for a successful response is the verdict of the detections of the body, which are:
  \<open>images[0].results\<close> when it is there, whatever \<open>predictions\<close> holds and also when
  the list is empty; otherwise (no \<open>images\<close>, an empty \<open>images\<close>, or no \<open>results\<close>
  in \<open>images[0]\<close>) \<open>predictions[0].detections\<close> when that is there; and no detections
  when neither is there.
\<close>

theorem verdict_thresholds:
  "(let v = classify_detections dets;
        ws = filter (\<lambda>det. det_class det = 1) dets;
        c = confidence v
    in c = (if ws = [] then 0 else Max (set (map det_confidence ws)))
       \<and> isWaste v = (c \<ge> 0.25)
       \<and> verification v =
           (if c < double_0_65 then ''unverified''
            else if c < double_0_85 then ''medium_confidence''
            else ''high_confidence'')
       \<and> isHighConfidence v = (c \<ge> double_0_85)
       \<and> isVerifiedWaste v = (isWaste v \<and> c \<ge> double_0_85))
   \<and> \<bar>double_0_65 - 65 / 100\<bar> < 1 / 2 ^ 54
   \<and> \<bar>double_0_85 - 85 / 100\<bar> < 1 / 2 ^ 54
   \<and> fst (classifyImage img (d, Json data) s) =
       Inr (case imageCache s (md5 img) of
              Some cached \<Rightarrow> cached
            | None \<Rightarrow> classify_detections (extract_detections data))
   \<and> extract_detections
        \<lparr> images = Some (\<lparr> results = Some ds \<rparr> # ims), predictions = ps \<rparr> = ds
   \<and> extract_detections
        \<lparr> images = None, predictions = Some (\<lparr> detections = Some ds \<rparr> # ps') \<rparr> = ds
   \<and> extract_detections
        \<lparr> images = Some [], predictions = Some (\<lparr> detections = Some ds \<rparr> # ps') \<rparr> = ds
   \<and> extract_detections
        \<lparr> images = Some (\<lparr> results = None \<rparr> # ims),
          predictions = Some (\<lparr> detections = Some ds \<rparr> # ps') \<rparr> = ds
   \<and> extract_detections \<lparr> images = None, predictions = None \<rparr> = []
   \<and> extract_detections \<lparr> images = None, predictions = Some [] \<rparr> = []
   \<and> extract_detections
        \<lparr> images = None, predictions = Some (\<lparr> detections = None \<rparr> # ps') \<rparr> = []
   \<and> extract_detections \<lparr> images = Some [], predictions = None \<rparr> = []
   \<and> extract_detections \<lparr> images = Some [], predictions = Some [] \<rparr> = []
   \<and> extract_detections
        \<lparr> images = Some [], predictions = Some (\<lparr> detections = None \<rparr> # ps') \<rparr> = []
   \<and> extract_detections
        \<lparr> images = Some (\<lparr> results = None \<rparr> # ims), predictions = None \<rparr> = []
   \<and> extract_detections
        \<lparr> images = Some (\<lparr> results = None \<rparr> # ims), predictions = Some [] \<rparr> = []
   \<and> extract_detections
        \<lparr> images = Some (\<lparr> results = None \<rparr> # ims),
          predictions = Some (\<lparr> detections = None \<rparr> # ps') \<rparr> = []"
proof -
  have v: "(let v = classify_detections dets;
        ws = filter (\<lambda>det. det_class det = 1) dets;
        c = confidence v
    in c = (if ws = [] then 0 else Max (set (map det_confidence ws)))
       \<and> isWaste v = (c \<ge> 0.25)
       \<and> verification v =
           (if c < double_0_65 then ''unverified''
            else if c < double_0_85 then ''medium_confidence''
            else ''high_confidence'')
       \<and> isHighConfidence v = (c \<ge> double_0_85)
       \<and> isVerifiedWaste v = (isWaste v \<and> c \<ge> double_0_85))"
    unfolding Let_def
    using classify_detections_fields [of dets]
      maxConfidence_of_Max [of "filter (\<lambda>det. det_class det = 1) dets"]
    by simp
  show ?thesis
    by (intro conjI v double_literals(2,6) classifyImage_miss_Json extract_detections_first
        extract_detections_second extract_detections_neither)
qed

text \<open>
  A body of the second shape whose \<open>images\<close> is an empty list, with a detection of
  confidence 0.85: the verdict is of high confidence. A body of the first shape with an
  empty list of results and detections under \<open>predictions\<close>: no detections, confidence 0.
\<close>

theorem verdict_thresholds_witness:
  "classify_detections
     (extract_detections
        \<lparr> images = Some [],
          predictions =
            Some [\<lparr> detections =
                      Some [\<lparr> det_class = 0, det_confidence = double_0_9 \<rparr>,
                            \<lparr> det_class = 1, det_confidence = double_0_65 \<rparr>,
                            \<lparr> det_class = 1, det_confidence = double_0_85 \<rparr>] \<rparr>] \<rparr>)
     = \<lparr> isWaste = True, label = ''waste'', confidence = double_0_85,
         verification = ''high_confidence'', isHighConfidence = True, isVerifiedWaste = True,
         modelVersion = ''YOLOv8'' \<rparr>
   \<and> verification (classify_detections [\<lparr> det_class = 1, det_confidence = double_0_65 \<rparr>])
       = ''medium_confidence''
   \<and> verification (classify_detections [\<lparr> det_class = 1, det_confidence = 0.5 \<rparr>])
       = ''unverified''
   \<and> isWaste (classify_detections [\<lparr> det_class = 1, det_confidence = 0.5 \<rparr>])
   \<and> confidence
        (classify_detections
           (extract_detections
              \<lparr> images = Some [\<lparr> results = Some [] \<rparr>],
                predictions =
                  Some [\<lparr> detections =
                            Some [\<lparr> det_class = 1, det_confidence = double_0_9 \<rparr>] \<rparr>] \<rparr>)) = 0"
proof -
  let ?ds = "[\<lparr> det_class = 0, det_confidence = double_0_9 \<rparr>,
              \<lparr> det_class = 1, det_confidence = double_0_65 \<rparr>,
              \<lparr> det_class = 1, det_confidence = double_0_85 \<rparr>]"
  note a = verdict_thresholds [of ?ds _ _ _ _ ?ds "[]" _ "[]", unfolded Let_def]
  note b = verdict_thresholds [of "[\<lparr> det_class = 1, det_confidence = double_0_65 \<rparr>]",
      unfolded Let_def, THEN conjunct1]
  note c = verdict_thresholds [of "[\<lparr> det_class = 1, det_confidence = 0.5 \<rparr>]",
      unfolded Let_def, THEN conjunct1]
  note e = verdict_thresholds [of "[]" _ _ _ _ "[]" "[]"
      "Some [\<lparr> detections = Some [\<lparr> det_class = 1, det_confidence = double_0_9 \<rparr>] \<rparr>]",
      unfolded Let_def]
  have m: "max double_0_65 double_0_85 = double_0_85"
    using double_order by simp
  have 1: "classify_detections
     (extract_detections
        \<lparr> images = Some [], predictions = Some [\<lparr> detections = Some ?ds \<rparr>] \<rparr>)
     = \<lparr> isWaste = True, label = ''waste'', confidence = double_0_85,
         verification = ''high_confidence'', isHighConfidence = True, isVerifiedWaste = True,
         modelVersion = ''YOLOv8'' \<rparr>"
    using a double_order m
    by (simp add: classify_detections_def Let_def maxConfidence_of_def
        HIGH_CONFIDENCE_THRESHOLD_def MIN_CONFIDENCE_def)
  have 2: "verification (classify_detections [\<lparr> det_class = 1, det_confidence = double_0_65 \<rparr>])
       = ''medium_confidence''"
    using b double_order by (simp add: maxConfidence_of_def)
  have 3: "verification (classify_detections [\<lparr> det_class = 1, det_confidence = 0.5 \<rparr>])
       = ''unverified''
     \<and> isWaste (classify_detections [\<lparr> det_class = 1, det_confidence = 0.5 \<rparr>])"
    using c double_order by (simp add: maxConfidence_of_def)
  have 4: "confidence
        (classify_detections
           (extract_detections
              \<lparr> images = Some [\<lparr> results = Some [] \<rparr>],
                predictions =
                  Some [\<lparr> detections =
                            Some [\<lparr> det_class = 1, det_confidence = double_0_9 \<rparr>] \<rparr>] \<rparr>)) = 0"
    using e by simp
  from 1 2 3 4 show ?thesis
    by simp
qed

section \<open>Properties of a submission\<close>

lemma run_timers_other [simp]:
  "reports (run_timers s) = reports s" "users (run_timers s) = users s"
  "now (run_timers s) = now s" "upstream_calls (run_timers s) = upstream_calls s"
  by (simp_all add: run_timers_def)

lemma tick_other [simp]:
  "reports (tick d s) = reports s" "users (tick d s) = users s"
  "now (tick d s) = now s + d" "upstream_calls (tick d s) = upstream_calls s"
  by (simp_all add: tick_def)

lemma classifyImage_store:
  "reports (snd (classifyImage img up s)) = reports s"
  "users (snd (classifyImage img up s)) = users s"
  by (simp_all add: classifyImage_unfold Let_def split: option.split fetch_outcome.split)

lemma verify_image_store:
  "reports (snd (verify_image f img up s)) = reports s"
  "users (snd (verify_image f img up s)) = users s"
  using classifyImage_store [of img up s]
  by (auto simp: verify_image_def split: prod.split sum.split option.split)

lemma verify_image_eq:
  "verify_image f img up s =
     (if truthy f then (Inr None, s)
      else
        ((case fst (classifyImage img up s) of
            Inl msg \<Rightarrow> Inl (ServiceUnavailable msg)
          | Inr c \<Rightarrow> (case admission_gate c of Some r \<Rightarrow> Inl r | None \<Rightarrow> Inr (Some c))),
         snd (classifyImage img up s)))"
  by (simp add: verify_image_def split: prod.split sum.split option.split)

lemma post_report_not_LowConfidence:
  assumes "validate_request rt req = Inr (img, lat, lon)"
    and "verify_image (body_forceSubmit req) img (upstream out) s = (Inr cl, s1)"
  shows "fst (post_report rt req out s) \<noteq> LowConfidence c"
  using assms
  by (auto simp: post_report_def upload_image_def save_Report_def Let_def
      split: sum.split prod.split race_outcome.split option.split jsval.split if_splits)

lemma sample_request_simps:
  "body_title sample_request = JStr ''Dump''"
  "body_image sample_request = JStr ''AAAA''"
  "body_details sample_request = JStr ''Bags''"
  "body_address sample_request = JStr ''Main St''"
  "body_latitude sample_request = JNum 0"
  "body_longitude sample_request = JNum 0"
  "body_photoTimestamp sample_request = JUndefined"
  "body_reportType sample_request = JStr ''hazardous''"
  "body_forceSubmit sample_request = JUndefined"
  "req_user sample_request = ''u1''"
  by (simp_all add: sample_request_def)

lemma sample_outcomes_simps:
  "upstream sample_outcomes = (100, Json (waste_response double_0_9))"
  "upload_race sample_outcomes =
     UploadResolved \<lparr> secure_url = ''https://img/1.jpg'', public_id = ''reports/1'' \<rparr>"
  "fresh_id sample_outcomes = ''r1''"
  "save_error sample_outcomes = None"
  "user_update_error sample_outcomes = None"
  by (simp_all add: sample_outcomes_def)

lemma sample_world_simps:
  "imageCache sample_world = Map.empty"
  "timers sample_world = []"
  "now sample_world = 0"
  "upstream_calls sample_world = 0"
  "reports sample_world = Map.empty"
  "users sample_world = [''u1'' \<mapsto> \<lparr> reportCount = 0, points = 0 \<rparr>]"
  by (simp_all add: sample_world_def initial_world_def)

lemma sample_validate:
  "validate_request sample_runtime sample_request = Inr (''AAAA'', 0, 0)"
  by (simp add: validate_request_def sample_runtime_def sample_request_def strip_data_url_def
      data_url_rest_def missing_fields_def image_format_ok_def is_base64_char_def)

lemma sample_classify_detections:
  "classify_detections (extract_detections (waste_response double_0_9)) = sample_verdict"
  using double_order
  by (simp add: classify_detections_def maxConfidence_of_def Let_def waste_response_def
      extract_detections_def HIGH_CONFIDENCE_THRESHOLD_def MIN_CONFIDENCE_def sample_verdict_def)

lemma sample_classifyImage:
  "fst (classifyImage ''AAAA'' (100, Json (waste_response double_0_9)) sample_world) = Inr sample_verdict"
  by (simp add: classifyImage_miss_Json sample_world_simps sample_classify_detections)

lemma sample_verify:
  "verify_image JUndefined ''AAAA'' (100, Json (waste_response double_0_9)) sample_world =
     (Inr (Some sample_verdict),
      snd (classifyImage ''AAAA'' (100, Json (waste_response double_0_9)) sample_world))"
proof -
  have "admission_gate sample_verdict = None"
    using double_order by (simp add: admission_gate_def sample_verdict_def)
  then show ?thesis
    by (simp add: verify_image_eq sample_classifyImage)
qed

text \<open>
  Claim C2. The numbers are doubles, and \<open>0.70\<close> is the double that the literal
  \<open>0.7\<close> of the route denotes (\<open>double_0_7\<close>, the double nearest to 7/10), which is
  also the confidence that a JSON body gives as \<open>0.7\<close>. A submission that is not bypassed and whose verdict is waste
  passes the verification exactly when the confidence of the verdict is at least 0.70, and
  is answered with \<open>LOW_CONFIDENCE\<close> exactly when it is below; so 0.70 itself passes.
  The gate is not the tier boundary of the classifier, which is lower: a verdict from 0.65
  up to 0.70 has the tier \<open>medium_confidence\<close> and is refused.
\<close>

theorem admission_confidence_gate:
  assumes "validate_request rt req = Inr (img, lat, lon)"
    and "\<not> truthy (body_forceSubmit req)"
    and "classifyImage img (upstream out) s = (Inr c, s1)"
    and "isWaste c"
  shows "(verify_image (body_forceSubmit req) img (upstream out) s = (Inr (Some c), s1))
           = (confidence c \<ge> double_0_7)
       \<and> (post_report rt req out s = (LowConfidence c, s1)) = (confidence c < double_0_7)
       \<and> reply_code (LowConfidence c) = Some ''LOW_CONFIDENCE''
       \<and> \<bar>double_0_7 - 7 / 10\<bar> < 1 / 2 ^ 54
       \<and> MIN_CONFIDENCE < double_0_7
       \<and> (\<forall>ds. MIN_CONFIDENCE \<le> confidence (classify_detections ds)
                \<and> confidence (classify_detections ds) < double_0_7
              \<longrightarrow> verification (classify_detections ds) = ''medium_confidence''
                \<and> admission_gate (classify_detections ds)
                    = Some (LowConfidence (classify_detections ds)))"
proof -
  have gate: "admission_gate c = (if confidence c < double_0_7 then Some (LowConfidence c) else None)"
    using assms(4) by (simp add: admission_gate_def)
  have v: "verify_image (body_forceSubmit req) img (upstream out) s =
             (if confidence c < double_0_7 then (Inl (LowConfidence c), s1)
              else (Inr (Some c), s1))"
    using assms(2,3) gate by (simp add: verify_image_def)
  have a: "(verify_image (body_forceSubmit req) img (upstream out) s = (Inr (Some c), s1))
             = (confidence c \<ge> double_0_7)"
    using v by auto
  have low: "confidence c < double_0_7 \<Longrightarrow> post_report rt req out s = (LowConfidence c, s1)"
    using assms(1) v by (simp add: post_report_def)
  have high: "\<not> confidence c < double_0_7 \<Longrightarrow> fst (post_report rt req out s) \<noteq> LowConfidence c"
    using post_report_not_LowConfidence [OF assms(1), of out s "Some c" s1 c] v by simp
  have b: "(post_report rt req out s = (LowConfidence c, s1)) = (confidence c < double_0_7)"
    using low high by (metis fst_conv)
  have m: "MIN_CONFIDENCE < double_0_7"
    using double_order by (simp add: MIN_CONFIDENCE_def)
  have d: "\<forall>ds. MIN_CONFIDENCE \<le> confidence (classify_detections ds)
                \<and> confidence (classify_detections ds) < double_0_7
              \<longrightarrow> verification (classify_detections ds) = ''medium_confidence''
                \<and> admission_gate (classify_detections ds)
                    = Some (LowConfidence (classify_detections ds))"
    using double_order
    by (auto simp: classify_detections_fields admission_gate_def MIN_CONFIDENCE_def)
  show ?thesis using a b m d double_literals(4) by simp
qed

text \<open>
  The gate at its boundary. A verdict of confidence 0.7, as the JSON body of the
  classifier gives it, passes. A verdict of the double just below, 0.6999999999999998, is
  of medium confidence and the submission is answered with \<open>LOW_CONFIDENCE\<close>.
\<close>

theorem admission_confidence_gate_witness:
  "verify_image JUndefined ''AAAA'' (100, Json (waste_response double_0_7)) sample_world =
     (Inr (Some (classify_detections [\<lparr> det_class = 1, det_confidence = double_0_7 \<rparr>])),
      snd (classifyImage ''AAAA'' (100, Json (waste_response double_0_7)) sample_world))
   \<and> confidence (classify_detections [\<lparr> det_class = 1, det_confidence = double_0_7 \<rparr>])
       = double_0_7
   \<and> post_report sample_runtime sample_request
         (sample_outcomes\<lparr> upstream := (100, Json (waste_response double_0_7)) \<rparr>) sample_world
       \<noteq> (LowConfidence (classify_detections [\<lparr> det_class = 1, det_confidence = double_0_7 \<rparr>]),
           snd (classifyImage ''AAAA'' (100, Json (waste_response double_0_7)) sample_world))
   \<and> post_report sample_runtime sample_request
         (sample_outcomes\<lparr> upstream := (100, Json (waste_response double_below_0_7)) \<rparr>)
         sample_world
       = (LowConfidence
            (classify_detections [\<lparr> det_class = 1, det_confidence = double_below_0_7 \<rparr>]),
          snd (classifyImage ''AAAA'' (100, Json (waste_response double_below_0_7)) sample_world))
   \<and> verification
        (classify_detections [\<lparr> det_class = 1, det_confidence = double_below_0_7 \<rparr>])
       = ''medium_confidence''"
proof -
  have h2: "\<not> truthy (body_forceSubmit sample_request)"
    by (simp add: sample_request_def)
  have cl: "classifyImage ''AAAA'' (upstream (sample_outcomes\<lparr> upstream := (100, Json (waste_response x)) \<rparr>))
              sample_world
            = (Inr (classify_detections [\<lparr> det_class = 1, det_confidence = x \<rparr>]),
               snd (classifyImage ''AAAA'' (100, Json (waste_response x)) sample_world))" for x
    by (simp add: prod_eq_iff classifyImage_miss_Json sample_world_simps waste_response_def
        extract_detections_def)
  have c: "confidence (classify_detections [\<lparr> det_class = 1, det_confidence = x \<rparr>]) = x" for x
    by (simp add: classify_detections_fields maxConfidence_of_def)
  have w: "0.25 \<le> x \<Longrightarrow> isWaste (classify_detections [\<lparr> det_class = 1, det_confidence = x \<rparr>])"
    for x
    by (simp add: classify_detections_fields maxConfidence_of_def)
  have w1: "isWaste (classify_detections [\<lparr> det_class = 1, det_confidence = double_0_7 \<rparr>])"
    using double_order by (intro w) simp
  have w2: "isWaste (classify_detections [\<lparr> det_class = 1, det_confidence = double_below_0_7 \<rparr>])"
    using double_order by (intro w) simp
  note at = admission_confidence_gate [OF sample_validate h2 cl w1]
  note below = admission_confidence_gate [OF sample_validate h2 cl w2]
  have 1: "verify_image JUndefined ''AAAA'' (100, Json (waste_response double_0_7)) sample_world =
     (Inr (Some (classify_detections [\<lparr> det_class = 1, det_confidence = double_0_7 \<rparr>])),
      snd (classifyImage ''AAAA'' (100, Json (waste_response double_0_7)) sample_world))"
    using at [THEN conjunct1] by (simp add: c sample_request_simps)
  have 2: "post_report sample_runtime sample_request
         (sample_outcomes\<lparr> upstream := (100, Json (waste_response double_0_7)) \<rparr>) sample_world
       \<noteq> (LowConfidence (classify_detections [\<lparr> det_class = 1, det_confidence = double_0_7 \<rparr>]),
           snd (classifyImage ''AAAA'' (100, Json (waste_response double_0_7)) sample_world))"
    using at [THEN conjunct2, THEN conjunct1] by (simp add: c)
  have 3: "post_report sample_runtime sample_request
         (sample_outcomes\<lparr> upstream := (100, Json (waste_response double_below_0_7)) \<rparr>)
         sample_world
       = (LowConfidence
            (classify_detections [\<lparr> det_class = 1, det_confidence = double_below_0_7 \<rparr>]),
          snd (classifyImage ''AAAA'' (100, Json (waste_response double_below_0_7)) sample_world))"
    using below [THEN conjunct2, THEN conjunct1] double_order(4) by (simp add: c)
  have 4: "verification
        (classify_detections [\<lparr> det_class = 1, det_confidence = double_below_0_7 \<rparr>])
       = ''medium_confidence''"
    using below [THEN conjunct2, THEN conjunct2, THEN conjunct2, THEN conjunct2,
        THEN conjunct2, rule_format,
        of "[\<lparr> det_class = 1, det_confidence = double_below_0_7 \<rparr>]"] double_order(3,4)
    by (simp add: c MIN_CONFIDENCE_def)
  from 1 c [of double_0_7] 2 3 4 show ?thesis
    by simp
qed

text \<open>
  Claim C9, amended. For an admitted submission, when the deadline settles the race the
  reply is \<open>CLOUDINARY_TIMEOUT\<close> with status 504, and when the upload rejects first with a
  message other than the text \<open>CLOUDINARY_TIMEOUT\<close> the reply is \<open>CLOUDINARY_ERROR\<close> with
  status 500 and that message; in both cases no report is stored.
\<close>

theorem upload_race_failures:
  assumes "validate_request rt req = Inr (img, lat, lon)"
    and "verify_image (body_forceSubmit req) img (upstream out) s = (Inr classification, s1)"
  shows "(upload_race out = DeadlineFirst \<longrightarrow> post_report rt req out s = (CloudinaryTimeout, s1))
       \<and> (\<forall>e. upload_race out = UploadRejected e \<and> err_message e \<noteq> ''CLOUDINARY_TIMEOUT''
              \<longrightarrow> post_report rt req out s = (CloudinaryError (err_message e), s1))
       \<and> reports s1 = reports s
       \<and> http_status CloudinaryTimeout = 504
       \<and> reply_code CloudinaryTimeout = Some ''CLOUDINARY_TIMEOUT''
       \<and> (\<forall>m. http_status (CloudinaryError m) = 500
              \<and> reply_code (CloudinaryError m) = Some ''CLOUDINARY_ERROR'')"
proof -
  have "reports s1 = reports s"
    using verify_image_store(1) [of "body_forceSubmit req" img "upstream out" s] assms(2) by simp
  then show ?thesis
    using assms by (auto simp: post_report_def upload_image_def)
qed

text \<open>
  The two failures of the upload on the sample submission.
\<close>

theorem upload_race_failures_witness:
  "post_report sample_runtime sample_request
     (sample_outcomes\<lparr> upload_race := DeadlineFirst \<rparr>) sample_world =
     (CloudinaryTimeout, snd (classifyImage ''AAAA'' (100, Json (waste_response double_0_9)) sample_world))
   \<and> post_report sample_runtime sample_request
         (sample_outcomes\<lparr> upload_race :=
            UploadRejected \<lparr> err_name = ''Error'', err_message = ''socket hang up'' \<rparr> \<rparr>)
         sample_world =
       (CloudinaryError ''socket hang up'',
        snd (classifyImage ''AAAA'' (100, Json (waste_response double_0_9)) sample_world))
   \<and> reports (snd (classifyImage ''AAAA'' (100, Json (waste_response double_0_9)) sample_world))
       = reports sample_world"
proof -
  let ?s1 = "snd (classifyImage ''AAAA'' (100, Json (waste_response double_0_9)) sample_world)"
  let ?o1 = "sample_outcomes\<lparr> upload_race := DeadlineFirst \<rparr>"
  let ?o2 = "sample_outcomes\<lparr> upload_race :=
               UploadRejected \<lparr> err_name = ''Error'', err_message = ''socket hang up'' \<rparr> \<rparr>"
  have v1: "verify_image (body_forceSubmit sample_request) ''AAAA'' (upstream ?o1) sample_world
              = (Inr (Some sample_verdict), ?s1)"
    by (simp add: sample_request_simps sample_outcomes_simps sample_verify)
  have v2: "verify_image (body_forceSubmit sample_request) ''AAAA'' (upstream ?o2) sample_world
              = (Inr (Some sample_verdict), ?s1)"
    by (simp add: sample_request_simps sample_outcomes_simps sample_verify)
  from upload_race_failures [OF sample_validate v1] upload_race_failures [OF sample_validate v2] show ?thesis
    by simp
qed

text \<open>
  Claim C9 as stated fails: the route tells the failures apart by the message alone, so an
  upload that itself rejects with the message \<open>CLOUDINARY_TIMEOUT\<close> is answered as a
  timeout, not as \<open>CLOUDINARY_ERROR\<close>.
\<close>

theorem upload_error_named_like_deadline:
  "fst (post_report sample_runtime sample_request
          (sample_outcomes\<lparr> upload_race :=
             UploadRejected \<lparr> err_name = ''Error'', err_message = ''CLOUDINARY_TIMEOUT'' \<rparr> \<rparr>)
          sample_world) = CloudinaryTimeout
   \<and> fst (post_report sample_runtime sample_request
          (sample_outcomes\<lparr> upload_race :=
             UploadRejected \<lparr> err_name = ''Error'', err_message = ''CLOUDINARY_TIMEOUT'' \<rparr> \<rparr>)
          sample_world) \<noteq> CloudinaryError ''CLOUDINARY_TIMEOUT''"
  by (simp add: post_report_def sample_validate sample_verify sample_request_simps
      sample_outcomes_simps upload_image_def)

lemma missing_fields_members:
  "(''title'' \<in> set (missing_fields req)) = (\<not> truthy (body_title req))"
  "(''image'' \<in> set (missing_fields req)) = (\<not> truthy (body_image req))"
  "(''details'' \<in> set (missing_fields req)) = (\<not> truthy (body_details req))"
  "(''address'' \<in> set (missing_fields req)) = (\<not> truthy (body_address req))"
  "(''location'' \<in> set (missing_fields req)) =
     (body_latitude req = JUndefined \<or> body_longitude req = JUndefined)"
  "set (missing_fields req) \<subseteq> {''title'', ''image'', ''details'', ''address'', ''location''}"
  by (auto simp: missing_fields_def)

text \<open>
  Claim C4, amended. When the image is a string whose decoded size is within 5 MiB and a
  required field is missing (title, image, details or address falsy, latitude or
  longitude undefined), the reply is the single failure \<open>MISSING_FIELDS\<close> with status 400,
  and its list names every missing field and nothing else; missing coordinates are
  listed as \<open>location\<close>.
\<close>

theorem missing_fields_aggregated:
  assumes "body_image req = JStr img"
    and "decoded_length rt (strip_data_url img) \<le> 5 * 1024 * 1024"
    and "\<not> truthy (body_title req) \<or> img = [] \<or> \<not> truthy (body_details req)
         \<or> \<not> truthy (body_address req) \<or> body_latitude req = JUndefined
         \<or> body_longitude req = JUndefined"
  shows "post_report rt req out s = (MissingFields (missing_fields req), s)
       \<and> http_status (MissingFields (missing_fields req)) = 400
       \<and> reply_code (MissingFields (missing_fields req)) = Some ''MISSING_FIELDS''
       \<and> (''title'' \<in> set (missing_fields req)) = (\<not> truthy (body_title req))
       \<and> (''image'' \<in> set (missing_fields req)) = (img = [])
       \<and> (''details'' \<in> set (missing_fields req)) = (\<not> truthy (body_details req))
       \<and> (''address'' \<in> set (missing_fields req)) = (\<not> truthy (body_address req))
       \<and> (''location'' \<in> set (missing_fields req)) =
           (body_latitude req = JUndefined \<or> body_longitude req = JUndefined)
       \<and> set (missing_fields req) \<subseteq> {''title'', ''image'', ''details'', ''address'', ''location''}"
proof -
  have ne: "missing_fields req \<noteq> []"
    using assms(1,3) by (auto simp: missing_fields_def)
  have "validate_request rt req = Inl (MissingFields (missing_fields req))"
    using assms(1,2) ne by (simp add: validate_request_def Let_def)
  then have "post_report rt req out s = (MissingFields (missing_fields req), s)"
    by (simp add: post_report_def)
  then show ?thesis
    using missing_fields_members [of req] assms(1) by simp
qed

text \<open>
  Three fields missing at once: all three are listed.
\<close>

theorem missing_fields_aggregated_witness:
  "post_report sample_runtime
     (sample_request\<lparr> body_title := JUndefined, body_address := JStr [],
                      body_longitude := JUndefined \<rparr>)
     sample_outcomes sample_world =
     (MissingFields [''title'', ''address'', ''location''], sample_world)"
proof -
  let ?req = "sample_request\<lparr> body_title := JUndefined, body_address := JStr [],
                              body_longitude := JUndefined \<rparr>"
  have h1: "body_image ?req = JStr ''AAAA''"
    by (simp add: sample_request_simps)
  have h2: "decoded_length sample_runtime (strip_data_url ''AAAA'') \<le> 5 * 1024 * 1024"
    by (simp add: sample_runtime_def strip_data_url_def data_url_rest_def)
  have h3: "\<not> truthy (body_title ?req) \<or> ''AAAA'' = [] \<or> \<not> truthy (body_details ?req)
         \<or> \<not> truthy (body_address ?req) \<or> body_latitude ?req = JUndefined
         \<or> body_longitude ?req = JUndefined"
    by simp
  have m: "missing_fields ?req = [''title'', ''address'', ''location'']"
    by (simp add: missing_fields_def sample_request_simps)
  from missing_fields_aggregated [OF h1 h2 h3, of sample_outcomes sample_world] m show ?thesis
    by simp
qed

lemma oversized_image_strip: "strip_data_url oversized_image = oversized_image"
proof -
  have "replicate 11 (CHR ''A'') = CHR ''A'' # replicate 10 (CHR ''A'')"
    using replicate_Suc [of 10 "CHR ''A''"] by simp
  then have "take 11 oversized_image \<noteq> ''data:image/''"
    by (simp add: oversized_image_def)
  then show ?thesis
    by (simp add: strip_data_url_def data_url_rest_def)
qed

text \<open>
  Claim C4 as stated fails: the size of the image is checked before the required fields,
  so a submission without a title whose image is too large is answered with
  \<open>IMAGE_TOO_LARGE\<close>.
\<close>

theorem oversized_image_hides_missing_fields:
  "\<not> truthy (body_title (sample_request\<lparr> body_title := JUndefined,
                                          body_image := JStr oversized_image \<rparr>))
   \<and> post_report sample_runtime
        (sample_request\<lparr> body_title := JUndefined, body_image := JStr oversized_image \<rparr>)
        sample_outcomes sample_world = (ImageTooLarge, sample_world)"
proof -
  have "decoded_length sample_runtime (strip_data_url oversized_image) > 5 * 1024 * 1024"
    by (simp add: oversized_image_strip) (simp add: sample_runtime_def oversized_image_def)
  then have "validate_request sample_runtime
          (sample_request\<lparr> body_title := JUndefined, body_image := JStr oversized_image \<rparr>)
        = Inl ImageTooLarge"
    by (simp add: validate_request_def Let_def)
  then show ?thesis
    by (simp add: post_report_def)
qed

text \<open>
  A body without an \<open>image\<close> never reaches the check of the required fields:
  \<open>image.replace\<close> throws first, and the reply is an internal error.
\<close>

lemma missing_image_is_internal_error:
  "post_report rt (req\<lparr> body_image := JUndefined \<rparr>) out s =
     (InternalServerError ''Cannot read properties of undefined (reading 'replace')'', s)"
  by (simp add: post_report_def validate_request_def)

section \<open>The stored report\<close>

lemma validate_request_not_Created: "validate_request rt req \<noteq> Inl (Created r p c)"
  by (auto simp: validate_request_def Let_def split: jsval.splits option.splits if_splits)

lemma verify_image_not_Created: "verify_image f img up s \<noteq> (Inl (Created r p c), s')"
  by (auto simp: verify_image_def admission_gate_def
      split: prod.splits sum.splits option.splits if_splits)

lemma save_Report_not_Created: "save_Report d err s \<noteq> Inl (Created r p c)"
  by (auto simp: save_Report_def Let_def split: option.splits jsval.splits if_splits)

lemma post_report_Created:
  assumes "post_report rt req out s = (Created r p c, s')"
  shows "\<exists>img lat lon s1 u obj s2.
           validate_request rt req = Inr (img, lat, lon)
         \<and> verify_image (body_forceSubmit req) img (upstream out) s = (Inr c, s1)
         \<and> upload_race out = UploadResolved u
         \<and> report_object rt req (now s1) lat lon u c = Inr obj
         \<and> save_Report (new_Report (fresh_id out) (now s1) obj) (save_error out) s1 = Inr (r, s2)
         \<and> p = pointsToAdd (finalReportType req)
         \<and> s' = award_points (req_user req) p (user_update_error out) s2"
  using assms validate_request_not_Created [of rt req r p c] save_Report_not_Created
    verify_image_not_Created [of "body_forceSubmit req" _ "upstream out" s r p c s']
  by (auto simp: post_report_def upload_image_def Let_def
      split: sum.splits prod.splits race_outcome.splits if_splits)

lemma save_Report_Inr:
  assumes "save_Report d err s = Inr (r, s2)"
  shows "validate_Report d = []"
    and "r = d @ [(''createdAt'', JNum (real (now s))), (''updatedAt'', JNum (real (now s)))]"
    and "\<exists>oid. field d ''_id'' = JStr oid \<and> reports s oid = None
           \<and> s2 = s\<lparr> reports := (reports s)(oid \<mapsto> r) \<rparr>"
  using assms
  by (auto simp: save_Report_def Let_def split: if_splits option.splits jsval.splits)

lemma map_of_strict_filter:
  "k \<notin> set ps \<Longrightarrow> map_of (filter (\<lambda>(k, v). k \<in> set ps \<and> v \<noteq> JUndefined) obj) k = None"
  by (induction obj) auto

lemma new_Report_id: "field (new_Report oid t obj) ''_id'' = JStr oid"
  by (simp add: new_Report_def field_def Let_def)

lemma new_Report_drops_aiVerification:
  "map_of (new_Report oid t obj) ''aiVerification'' = None"
proof -
  have "''aiVerification'' \<notin> set reportSchema_paths"
    by (simp add: reportSchema_paths_def)
  then show ?thesis
    by (simp add: new_Report_def Let_def map_of_strict_filter map_of_append)
qed

lemma verify_image_Inr:
  assumes "verify_image f img up s = (Inr c, s1)"
  shows "(truthy f \<longrightarrow> c = None)
       \<and> (\<not> truthy f \<longrightarrow> (\<exists>v. c = Some v \<and> isWaste v \<and> confidence v \<ge> double_0_7
                               \<and> fst (classifyImage img up s) = Inr v))"
  using assms
  by (auto simp: verify_image_eq admission_gate_def split: sum.splits option.splits if_splits)

lemma award_points_reports [simp]: "reports (award_points uid pts err s) = reports s"
  by (simp add: award_points_def inc_user_def split: option.split jsval.split)

lemma classifyImage_now_miss:
  "imageCache s (md5 img) = None \<Longrightarrow> now (snd (classifyImage img up s)) = now s + fst up"
  by (simp add: classifyImage_unfold Let_def split: fetch_outcome.split)

lemma sample_now:
  "now (snd (classifyImage ''AAAA'' (100, Json (waste_response double_0_9)) sample_world)) = 100"
  by (simp add: classifyImage_now_miss sample_world_simps)

lemma sample_report_object:
  "report_object sample_runtime sample_request 100 0 0
     \<lparr> secure_url = ''https://img/1.jpg'', public_id = ''reports/1'' \<rparr> (Some sample_verdict) =
   Inr [(''title'', JStr ''Dump''), (''image'', JStr ''https://img/1.jpg''),
        (''publicId'', JStr ''reports/1''), (''details'', JStr ''Bags''),
        (''address'', JStr ''Main St''), (''reportType'', JStr ''hazardous''),
        (''location'', JObj [(''type'', JStr ''Point''), (''coordinates'', JArr [JNum 0, JNum 0])]),
        (''photoTimestamp'', JNum 100), (''user'', JStr ''u1''),
        (''aiVerification'',
           JObj [(''isWaste'', JBool True), (''confidence'', JNum double_0_9),
                 (''verification'', JStr ''high_confidence'')])]"
  by (simp add: report_object_def trim_field_def trim_def is_space_def sample_request_simps
      finalReportType_def aiVerification_of_def sample_verdict_def)

lemma sample_new_Report:
  "new_Report ''r1'' 100
     [(''title'', JStr ''Dump''), (''image'', JStr ''https://img/1.jpg''),
      (''publicId'', JStr ''reports/1''), (''details'', JStr ''Bags''),
      (''address'', JStr ''Main St''), (''reportType'', JStr ''hazardous''),
      (''location'', JObj [(''type'', JStr ''Point''), (''coordinates'', JArr [JNum 0, JNum 0])]),
      (''photoTimestamp'', JNum 100), (''user'', JStr ''u1''),
      (''aiVerification'',
         JObj [(''isWaste'', JBool True), (''confidence'', JNum double_0_9),
               (''verification'', JStr ''high_confidence'')])]
   = butlast (butlast sample_saved)"
  by (simp add: new_Report_def reportSchema_paths_def sample_saved_def Let_def)

lemma sample_validate_Report: "validate_Report (butlast (butlast sample_saved)) = []"
  by (simp add: validate_Report_def sample_saved_def field_def nonempty_string_def is_number_def
      string_in_def reportType_enum_def status_enum_def)

lemma sample_save_Report:
  "save_Report (butlast (butlast sample_saved)) None
     (snd (classifyImage ''AAAA'' (100, Json (waste_response double_0_9)) sample_world)) =
   Inr (sample_saved,
        (snd (classifyImage ''AAAA'' (100, Json (waste_response double_0_9)) sample_world))
          \<lparr> reports := [''r1'' \<mapsto> sample_saved] \<rparr>)"
proof -
  have "field (butlast (butlast sample_saved)) ''_id'' = JStr ''r1''"
    by (simp add: sample_saved_def field_def)
  moreover have "butlast (butlast sample_saved)
        @ [(''createdAt'', JNum (real 100)), (''updatedAt'', JNum (real 100))] = sample_saved"
    by (simp add: sample_saved_def)
  ultimately show ?thesis
    by (simp add: save_Report_def sample_validate_Report sample_now classifyImage_store
        sample_world_simps Let_def)
qed

lemma sample_post_report:
  "post_report sample_runtime sample_request sample_outcomes sample_world =
     (Created sample_saved (JNum 20) (Some sample_verdict),
      inc_user ''u1'' 1 20
        ((snd (classifyImage ''AAAA'' (100, Json (waste_response double_0_9)) sample_world))
           \<lparr> reports := [''r1'' \<mapsto> sample_saved] \<rparr>))"
proof -
  have p: "pointsToAdd (finalReportType sample_request) = JNum 20"
    by (simp add: pointsToAdd_def finalReportType_def sample_request_simps pointsMap_at_def
        pointsMap_def)
  show ?thesis
    by (simp add: post_report_def sample_validate sample_request_simps sample_outcomes_simps
        sample_verify upload_image_def sample_now sample_report_object sample_new_Report
        sample_save_Report p award_points_def)
qed

text \<open>
  Claim C1 on the code. The route passes the snapshot \<open>aiVerification\<close> (the verdict's
  \<open>isWaste\<close>, \<open>confidence\<close> and tier, or null when bypassed) to \<open>new Report\<close>, but
  \<open>reportSchema\<close> declares no such path: whenever a submission is answered with the
  created report, the report that is stored under its identifier has no \<open>aiVerification\<close>
  property, although the submission carries a waste verdict of confidence at least 0.70
  unless it was bypassed.
\<close>

theorem snapshot_not_persisted:
  assumes "post_report rt req out s = (Created r p c, s')"
  shows "reports s' (fresh_id out) = Some r
       \<and> field r ''aiVerification'' = JUndefined
       \<and> map_of r ''aiVerification'' = None
       \<and> (truthy (body_forceSubmit req) \<longrightarrow> c = None)
       \<and> (\<not> truthy (body_forceSubmit req) \<longrightarrow>
            (\<exists>v. c = Some v \<and> isWaste v \<and> confidence v \<ge> double_0_7))"
proof -
  from post_report_Created [OF assms] obtain img lat lon s1 u obj s2 where
    v: "verify_image (body_forceSubmit req) img (upstream out) s = (Inr c, s1)"
    and sv: "save_Report (new_Report (fresh_id out) (now s1) obj) (save_error out) s1 = Inr (r, s2)"
    and s': "s' = award_points (req_user req) p (user_update_error out) s2"
    by blast
  let ?d = "new_Report (fresh_id out) (now s1) obj"
  from save_Report_Inr [OF sv] obtain oid where
    r: "r = ?d @ [(''createdAt'', JNum (real (now s1))), (''updatedAt'', JNum (real (now s1)))]"
    and oid: "field ?d ''_id'' = JStr oid"
    and s2: "s2 = s1\<lparr> reports := (reports s1)(oid \<mapsto> r) \<rparr>"
    by blast
  have "oid = fresh_id out"
    using oid by (simp add: new_Report_id)
  then have a: "reports s' (fresh_id out) = Some r"
    using s' s2 by simp
  have b: "map_of r ''aiVerification'' = None"
    using r new_Report_drops_aiVerification [of "fresh_id out" "now s1" obj]
    by (simp add: map_of_append)
  then have b': "field r ''aiVerification'' = JUndefined"
    by (simp add: field_def)
  from verify_image_Inr [OF v] a b b' show ?thesis
    by blast
qed

text \<open>
  The sample submission, verified with confidence 0.9: the stored report has no snapshot.
\<close>

theorem snapshot_not_persisted_witness:
  "post_report sample_runtime sample_request sample_outcomes sample_world =
     (Created sample_saved (JNum 20) (Some sample_verdict),
      inc_user ''u1'' 1 20
        ((snd (classifyImage ''AAAA'' (100, Json (waste_response double_0_9)) sample_world))
           \<lparr> reports := [''r1'' \<mapsto> sample_saved] \<rparr>))
   \<and> reports (inc_user ''u1'' 1 20
        ((snd (classifyImage ''AAAA'' (100, Json (waste_response double_0_9)) sample_world))
           \<lparr> reports := [''r1'' \<mapsto> sample_saved] \<rparr>)) ''r1'' = Some sample_saved
   \<and> field sample_saved ''aiVerification'' = JUndefined
   \<and> isWaste sample_verdict \<and> confidence sample_verdict = double_0_9"
  using snapshot_not_persisted [OF sample_post_report] sample_post_report
  by (simp add: sample_outcomes_simps sample_verdict_def)

section \<open>Points and deletion\<close>






lemma inc_user_other [simp]:
  "reports (inc_user uid a b s) = reports s"
  "imageCache (inc_user uid a b s) = imageCache s"
  by (simp_all add: inc_user_def split: option.split)










lemma delete_report_by_owner:
  assumes "reports s rid = Some r" and "field r ''user'' = JStr uid"
    and "pointsToDeduct (field r ''reportType'') = JNum p"
    and "find_error dout = None" and "deduct_error dout = None" and "deleteOne_error dout = None"
  shows "delete_report rid uid dout s =
           (Deleted, (inc_user uid (- 1) (- p) s)\<lparr> reports := (reports s)(rid := None) \<rparr>)"
  using assms by (simp add: delete_report_def Let_def)

lemma sample_deletion_simps:
  "find_error sample_deletion = None" "deduct_error sample_deletion = None"
  "deleteOne_error sample_deletion = None"
  by (simp_all add: sample_deletion_def)






text \<open>
  Claim C5, amended. A report is deleted only for a requester who is its owner: a reply
  \<open>Deleted\<close>, or the absence of the report afterwards, implies that the requester owns
  it. A requester who is not the owner is refused (status 401, or 500 when the store
  fails) and nothing changes; whenever the reply is not \<open>Deleted\<close> the reports are
  unchanged. The status of the report is not looked at: the owner's request succeeds
  whenever the store works.
\<close>

theorem delete_only_by_owner:
  assumes "reports s rid = Some report"
  shows "(fst (delete_report rid uid dout s) = Deleted \<longrightarrow> field report ''user'' = JStr uid)
       \<and> (reports (snd (delete_report rid uid dout s)) rid = None \<longrightarrow>
            field report ''user'' = JStr uid \<and> fst (delete_report rid uid dout s) = Deleted)
       \<and> (field report ''user'' \<noteq> JStr uid \<longrightarrow>
            (fst (delete_report rid uid dout s) = Unauthorized
               \<or> fst (delete_report rid uid dout s) = DeleteFailed)
            \<and> snd (delete_report rid uid dout s) = s)
       \<and> (\<forall>owner. field report ''user'' = JStr owner \<and> owner \<noteq> uid \<and> find_error dout = None
              \<longrightarrow> delete_report rid uid dout s = (Unauthorized, s))
       \<and> http_status Unauthorized = 401
       \<and> (fst (delete_report rid uid dout s) \<noteq> Deleted \<longrightarrow>
            reports (snd (delete_report rid uid dout s)) = reports s)
       \<and> (\<forall>p. field report ''user'' = JStr uid
              \<and> pointsToDeduct (field report ''reportType'') = JNum p
              \<and> find_error dout = None \<and> deduct_error dout = None \<and> deleteOne_error dout = None
              \<longrightarrow> fst (delete_report rid uid dout s) = Deleted
                \<and> reports (snd (delete_report rid uid dout s)) rid = None)"
  using assms
  by (auto simp: delete_report_def Let_def split: option.splits jsval.splits if_splits)

text \<open>
  Another user asks to delete the report of \<open>u1\<close>: refused, nothing changes.
\<close>

theorem delete_only_by_owner_witness:
  "reports resolved_world ''r1'' = Some resolved_report
   \<and> delete_report ''r1'' ''u2'' sample_deletion resolved_world = (Unauthorized, resolved_world)"
proof -
  have r: "reports resolved_world ''r1'' = Some resolved_report"
    by (simp add: resolved_world_def initial_world_def)
  have u: "field resolved_report ''user'' = JStr ''u1''"
    by (simp add: resolved_report_def field_def)
  from delete_only_by_owner [OF r, of "''u2''" sample_deletion] u r show ?thesis
    by (simp add: sample_deletion_simps)
qed

text \<open>
  Claim C5 as stated fails: the route never reads the status, so the owner deletes a
  report that is already resolved.
\<close>

theorem owner_deletes_resolved_report:
  "reports resolved_world ''r1'' = Some resolved_report
   \<and> field resolved_report ''status'' = JStr ''resolved''
   \<and> fst (delete_report ''r1'' ''u1'' sample_deletion resolved_world) = Deleted
   \<and> reports (snd (delete_report ''r1'' ''u1'' sample_deletion resolved_world)) ''r1'' = None"
proof -
  have r: "reports resolved_world ''r1'' = Some resolved_report"
    by (simp add: resolved_world_def initial_world_def)
  have u: "field resolved_report ''user'' = JStr ''u1''"
    by (simp add: resolved_report_def field_def)
  have p: "pointsToDeduct (field resolved_report ''reportType'') = JNum 10"
    by (simp add: resolved_report_def field_def pointsToDeduct_def pointsMap_at_def pointsMap_def)
  have st: "field resolved_report ''status'' = JStr ''resolved''"
    by (simp add: resolved_report_def field_def)
  from delete_report_by_owner [OF r u p sample_deletion_simps] r st show ?thesis
    by simp
qed

section \<open>The classification cache\<close>

lemma fold_delete:
  "fold (\<lambda>(due, hash) m. m(hash := None)) ts m h = (if h \<in> snd ` set ts then None else m h)"
  by (induction ts arbitrary: m) (auto split: prod.splits)

lemma imageCache_run_timers:
  "imageCache (run_timers s) h =
     (if h \<in> snd ` {(due, hash) \<in> set (timers s). due \<le> now s} then None else imageCache s h)"
proof -
  have "set (filter (\<lambda>(due, hash). due \<le> now s) (timers s))
          = {(due, hash) \<in> set (timers s). due \<le> now s}"
    by auto
  then show ?thesis
    by (simp add: run_timers_def fold_delete)
qed

lemma timers_run_timers:
  "timers (run_timers s) = filter (\<lambda>(due, hash). now s < due) (timers s)"
  by (simp add: run_timers_def)

lemma imageCache_tick:
  "imageCache (tick d s) h =
     (if h \<in> snd ` {(due, hash) \<in> set (timers s). due \<le> now s + d} then None
      else imageCache s h)"
  by (simp add: tick_def imageCache_run_timers)

lemma timers_tick:
  "timers (tick d s) = filter (\<lambda>(due, hash). now s + d < due) (timers s)"
  by (simp add: tick_def timers_run_timers)

lemma tick_upstream_calls_update:
  "imageCache (tick d (s\<lparr> upstream_calls := n \<rparr>)) = imageCache (tick d s)"
  "timers (tick d (s\<lparr> upstream_calls := n \<rparr>)) = timers (tick d s)"
  "now (tick d (s\<lparr> upstream_calls := n \<rparr>)) = now (tick d s)"
  by (simp_all add: fun_eq_iff imageCache_tick timers_tick)

lemma classifyImage_lookup_parts [simp]:
  "imageCache (snd (classifyImage_lookup img s)) = imageCache s"
  "timers (snd (classifyImage_lookup img s)) = timers s"
  "now (snd (classifyImage_lookup img s)) = now s"
  by (simp_all add: classifyImage_lookup_def split: option.split)



lemma classifyImage_settle_now [simp]:
  "now (snd (classifyImage_settle img outcome s)) = now s"
  by (simp add: classifyImage_settle_def Let_def split: fetch_outcome.split)












lemma classifyImage_miss_Json_state:
  assumes "imageCache s (md5 img) = None"
  shows "classifyImage img (d, Json data) s =
           (Inr (classify_detections (extract_detections data)),
            (tick d (s\<lparr> upstream_calls := upstream_calls s + 1 \<rparr>))
              \<lparr> imageCache :=
                  (imageCache (tick d (s\<lparr> upstream_calls := upstream_calls s + 1 \<rparr>)))
                    (md5 img \<mapsto> classify_detections (extract_detections data)),
                timers :=
                  timers (tick d (s\<lparr> upstream_calls := upstream_calls s + 1 \<rparr>))
                    @ [(now s + d + 300000, md5 img)] \<rparr>)"
  using assms by (simp add: classifyImage_unfold Let_def)

lemma classifyImage_hit:
  "imageCache s (md5 img) = Some v \<Longrightarrow> classifyImage img up s = (Inr v, s)"
  by (simp add: classifyImage_unfold)

lemma classifyImage_miss_calls:
  "imageCache s (md5 img) = None \<Longrightarrow>
   upstream_calls (snd (classifyImage img up s)) = upstream_calls s + 1"
  by (simp add: classifyImage_unfold Let_def split: fetch_outcome.split)

lemma initial_world_simps:
  "imageCache initial_world = Map.empty" "timers initial_world = []" "now initial_world = 0"
  "upstream_calls initial_world = 0"
  by (simp_all add: initial_world_def)







section \<open>The fingerprint\<close>

text \<open>
  Claim C7, amended. The key of the cache is the MD5 digest of the submitted string as
  it was received: a successful classification after a miss stores the verdict under that
  digest and changes no other entry, a call is answered from the cache exactly through
  that digest, and two submitted strings with the same digest are treated alike.
\<close>

theorem fingerprint_of_submitted_string:
  "(imageCache s (md5 img) = None \<longrightarrow>
      imageCache (snd (classifyImage img (d, Json data) s)) (md5 img)
        = Some (classify_detections (extract_detections data))
      \<and> (\<forall>h. h \<noteq> md5 img \<longrightarrow>
             imageCache (snd (classifyImage img (d, Json data) s)) h = imageCache (tick d s) h))
   \<and> (\<forall>v. imageCache s (md5 img) = Some v \<longrightarrow> classifyImage img up s = (Inr v, s))
   \<and> (md5 img = md5 img' \<longrightarrow> classifyImage img up s = classifyImage img' up s)"
proof (intro conjI impI allI)
  assume m: "imageCache s (md5 img) = None"
  show "imageCache (snd (classifyImage img (d, Json data) s)) (md5 img)
        = Some (classify_detections (extract_detections data))"
    by (simp add: classifyImage_miss_Json_state [OF m])
  show "imageCache (snd (classifyImage img (d, Json data) s)) h = imageCache (tick d s) h"
    if "h \<noteq> md5 img" for h
    using that by (simp add: classifyImage_miss_Json_state [OF m] tick_upstream_calls_update)
next
  fix v
  assume "imageCache s (md5 img) = Some v"
  then show "classifyImage img up s = (Inr v, s)"
    by (rule classifyImage_hit)
next
  assume "md5 img = md5 img'"
  then show "classifyImage img up s = classifyImage img' up s"
    by (simp add: classifyImage_unfold)
qed

text \<open>
  The verdict of the sample image is stored under the digest of the string \<open>AAAA\<close> and
  found there by the next call.
\<close>

theorem fingerprint_of_submitted_string_witness:
  "imageCache (snd (classifyImage ''AAAA'' (100, Json (waste_response double_0_9)) initial_world))
     (md5 ''AAAA'') = Some sample_verdict
   \<and> classifyImage ''AAAA'' (7, NotOk 500 ''down'')
        (snd (classifyImage ''AAAA'' (100, Json (waste_response double_0_9)) initial_world))
       = (Inr sample_verdict,
          snd (classifyImage ''AAAA'' (100, Json (waste_response double_0_9)) initial_world))"
proof -
  let ?s1 = "snd (classifyImage ''AAAA'' (100, Json (waste_response double_0_9)) initial_world)"
  have h1: "imageCache initial_world (md5 ''AAAA'') = None"
    by (simp add: initial_world_simps)
  have a: "imageCache ?s1 (md5 ''AAAA'') = Some sample_verdict"
    using fingerprint_of_submitted_string [where s = initial_world and img = "''AAAA''" and d = 100
        and data = "waste_response double_0_9", THEN conjunct1, rule_format, OF h1, THEN conjunct1]
    by (simp add: sample_classify_detections)
  have "classifyImage ''AAAA'' (7, NotOk 500 ''down'') ?s1 = (Inr sample_verdict, ?s1)"
    using fingerprint_of_submitted_string [where s = ?s1 and img = "''AAAA''" and up = "(7, NotOk 500 ''down'')",
        THEN conjunct2, THEN conjunct1, rule_format, OF a] .
  with a show ?thesis
    by simp
qed

text \<open>
  Three digests of the test suite of RFC 1321 (the last message fills two blocks), and
  the digests of the two strings used below.
\<close>

lemma md5_empty: "md5 [] = ''d41d8cd98f00b204e9800998ecf8427e''"
  by code_simp

lemma md5_abc: "md5 ''abc'' = ''900150983cd24fb0d6963f7d28e17f72''"
  by code_simp

lemma md5_two_blocks:
  "md5 ''12345678901234567890123456789012345678901234567890123456789012345678901234567890''
     = ''57edf4a22be3c955ac49da2e2107b67a''"
  by code_simp

lemma md5_plain: "md5 ''AAAA'' = ''098890dde069e9abad63f19a0d9e1f32''"
  by code_simp

lemma md5_prefixed: "md5 ''data:image/png;base64,AAAA'' = ''74a2f0f667739cfd62a284688a75dcfd''"
  by code_simp

text \<open>
  Claim C7 as stated fails: the digest is taken of the string before the data-URL prefix is
  removed. The same base64 body with and without the prefix decodes to the same bytes, but
  the two submissions have different fingerprints, and the second one is not answered from
  the cache.
\<close>

theorem data_url_prefix_changes_fingerprint:
  "strip_data_url ''data:image/png;base64,AAAA'' = strip_data_url ''AAAA''
   \<and> md5 ''data:image/png;base64,AAAA'' \<noteq> md5 ''AAAA''
   \<and> upstream_calls
         (snd (classifyImage ''data:image/png;base64,AAAA'' (100, Json (waste_response double_0_9))
                (snd (classifyImage ''AAAA'' (100, Json (waste_response double_0_9)) initial_world))))
       = 2"
proof -
  let ?s1 = "snd (classifyImage ''AAAA'' (100, Json (waste_response double_0_9)) initial_world)"
  have a: "strip_data_url ''data:image/png;base64,AAAA'' = strip_data_url ''AAAA''"
    by (simp add: strip_data_url_def data_url_rest_def is_word_char_def)
  have b: "md5 ''data:image/png;base64,AAAA'' \<noteq> md5 ''AAAA''"
    by (simp add: md5_plain md5_prefixed)
  have h1: "imageCache initial_world (md5 ''AAAA'') = None"
    by (simp add: initial_world_simps)
  have "imageCache ?s1 (md5 ''data:image/png;base64,AAAA'') = None"
    using b
    by (simp add: classifyImage_miss_Json_state [OF h1] tick_upstream_calls_update
        imageCache_tick initial_world_simps)
  then have "upstream_calls
         (snd (classifyImage ''data:image/png;base64,AAAA'' (100, Json (waste_response double_0_9)) ?s1))
       = upstream_calls ?s1 + 1"
    by (rule classifyImage_miss_calls)
  moreover have "upstream_calls ?s1 = 1"
    by (simp add: classifyImage_miss_calls [OF h1] initial_world_simps)
  ultimately show ?thesis
    using a b by simp
qed

end
